theory Spec2Isabelle
  imports Complex_Main
begin

text \<open>
  A model of the store analyzer's extraction pipeline: the fetcher, the parsers of
  \<open>ShopifyParser\<close>, the aggregation steps of \<open>RealtimeStoreAnalyzer\<close> and the competitor
  finder. Functions carry the names of the source, methods without their leading
  underscore. What a library returns (the queries of BeautifulSoup, the searches of \<open>re\<close>,
  pydantic's validation, \<open>urlparse\<close>, \<open>validators\<close>, the network, \<open>random\<close>) is an
  argument of the function that uses it, so a statement about the function holds for
  whatever the library returns. An exception is a value \<open>Inl e\<close> of a type \<open>error + 'a\<close>;
  a function whose source catches every exception has a plain result type.
\<close>

section \<open>Python strings\<close>

text \<open>
  Python \<open>str\<close> values are modelled as \<open>string\<close>; the text handled here is ASCII, so one
  \<open>char\<close> is one code point and \<open>length\<close> is Python's \<open>len\<close>.
\<close>

definition upper_letters :: string where
  "upper_letters = ''ABCDEFGHIJKLMNOPQRSTUVWXYZ''"

definition lower_letters :: string where
  "lower_letters = ''abcdefghijklmnopqrstuvwxyz''"

definition digits :: string where
  "digits = ''0123456789''"

definition lower_char :: "char \<Rightarrow> char" where
  "lower_char c = (case map_of (zip upper_letters lower_letters) c of Some d \<Rightarrow> d | None \<Rightarrow> c)"

definition upper_char :: "char \<Rightarrow> char" where
  "upper_char c = (case map_of (zip lower_letters upper_letters) c of Some d \<Rightarrow> d | None \<Rightarrow> c)"

definition lower :: "string \<Rightarrow> string" where
  \<comment> \<open>\<open>str.lower()\<close>\<close>
  "lower s = map lower_char s"

definition is_alpha :: "char \<Rightarrow> bool" where
  \<comment> \<open>the character class \<open>[a-zA-Z]\<close>\<close>
  "is_alpha c = (c \<in> set upper_letters \<or> c \<in> set lower_letters)"

definition is_space :: "char \<Rightarrow> bool" where
  \<comment> \<open>\<open>str.isspace()\<close> on ASCII, which is also the class \<open>\s\<close> of \<open>re\<close> on \<open>str\<close> patterns\<close>
  "is_space c = (c \<in> set [CHR '' '', CHR 0x09, CHR 0x0A, CHR 0x0B, CHR 0x0C, CHR 0x0D,
                            CHR 0x1C, CHR 0x1D, CHR 0x1E, CHR 0x1F])"

definition lstrip :: "string \<Rightarrow> string" where
  "lstrip s = dropWhile is_space s"

definition rstrip :: "string \<Rightarrow> string" where
  "rstrip s = rev (dropWhile is_space (rev s))"

definition strip :: "string \<Rightarrow> string" where
  \<comment> \<open>\<open>str.strip()\<close>\<close>
  "strip s = lstrip (rstrip s)"

definition rstrip_chars :: "string \<Rightarrow> string \<Rightarrow> string" where
  \<comment> \<open>\<open>s.rstrip(cs)\<close>\<close>
  "rstrip_chars cs s = rev (dropWhile (\<lambda>c. c \<in> set cs) (rev s))"

definition startswith :: "string \<Rightarrow> string \<Rightarrow> bool" where
  \<comment> \<open>\<open>s.startswith(p)\<close>\<close>
  "startswith s p = (take (length p) s = p)"

definition endswith :: "string \<Rightarrow> string \<Rightarrow> bool" where
  \<comment> \<open>\<open>s.endswith(p)\<close>\<close>
  "endswith s p = startswith (rev s) (rev p)"

fun contains :: "string \<Rightarrow> string \<Rightarrow> bool" where
  \<comment> \<open>\<open>p in s\<close>: \<open>p\<close> occurs in \<open>s\<close> as a contiguous substring\<close>
  "contains [] p = (p = [])"
| "contains (c # s) p = (startswith (c # s) p \<or> contains s p)"

fun split_on :: "char \<Rightarrow> string \<Rightarrow> string list" where
  \<comment> \<open>\<open>s.split(c)\<close> for a one-character separator: never empty, keeps empty fields\<close>
  "split_on c [] = [[]]"
| "split_on c (x # xs) =
     (case split_on c xs of
        [] \<Rightarrow> [[x]]
      | w # ws \<Rightarrow> if x = c then [] # w # ws else (x # w) # ws)"

section \<open>Errors\<close>

datatype error =
    AttributeError string
  | TypeError string
  | ValueError string
  | OtherException string

section \<open>Contact details: one e-mail address (\<open>services/parser.py\<close>)\<close>

definition letters_then_at :: "string \<Rightarrow> bool" where
  \<comment> \<open>\<open>re.match(r'^[a-zA-Z]+@', s)\<close>: a non-empty run of letters, then \<open>@\<close>\<close>
  "letters_then_at s =
     (let w = takeWhile is_alpha s in w \<noteq> [] \<and> startswith (drop (length w) s) ''@'')"

definition priority_patterns :: "(string \<Rightarrow> bool) list" where
  \<comment> \<open>each \<open>re.match\<close> of the source's list, in its order\<close>
  "priority_patterns =
     [\<lambda>s. startswith s ''info@'',
      \<lambda>s. startswith s ''contact@'',
      \<lambda>s. startswith s ''hello@'',
      \<lambda>s. startswith s ''support@'',
      \<lambda>s. startswith s ''sales@'',
      \<lambda>s. startswith s ''admin@'',
      letters_then_at]"

fun first_match :: "(string \<Rightarrow> bool) list \<Rightarrow> string \<Rightarrow> nat \<Rightarrow> nat option" where
  \<comment> \<open>the index \<open>i\<close> at which the \<open>for i, pattern in enumerate(...)\<close> loop breaks\<close>
  "first_match [] s i = None"
| "first_match (p # ps) s i = (if p s then Some i else first_match ps s (Suc i))"

definition pattern_score :: "string \<Rightarrow> int" where
  "pattern_score email =
     (case first_match priority_patterns (strip (lower email)) 0 of
        None \<Rightarrow> 0
      | Some i \<Rightarrow> int (length priority_patterns) - int i + 10)"

definition email_score :: "string \<Rightarrow> int" where
  "email_score email =
     (let score = pattern_score email;
          score = (if length email < 30 then score + 2 else score);
          score = (if length email > 50 then score - 3 else score)
      in score)"

definition sort_reverse :: "('a \<times> int) list \<Rightarrow> ('a \<times> int) list" where
  \<comment> \<open>\<open>xs.sort(key=lambda x: x[1], reverse=True)\<close>: descending, equal keys keep their order\<close>
  "sort_reverse xs = sort_key (\<lambda>x. - snd x) xs"

definition select_best_email :: "string list \<Rightarrow> string option" where
  \<comment> \<open>\<open>ShopifyParser._select_best_email\<close>\<close>
  "select_best_email emails =
     (if emails = [] then None
      else let scored_emails = map (\<lambda>email. (email, email_score email)) emails
           in Some (fst (hd (sort_reverse scored_emails))))"

definition py_list_set :: "('a list \<Rightarrow> 'a list) \<Rightarrow> 'a list \<Rightarrow> 'a list" where
  \<comment> \<open>\<open>list(set(xs))\<close>: duplicates removed, in the iteration order of the set, which the
      language leaves open and \<open>order\<close> supplies\<close>
  "py_list_set order xs = order (remdups xs)"

definition extract_emails_from_text ::
  "(string list \<Rightarrow> string list) \<Rightarrow> (string \<Rightarrow> string list) \<Rightarrow> string \<Rightarrow> string list" where
  \<comment> \<open>\<open>utils/helpers.py\<close>; \<open>findall\<close> is \<open>re.findall(email_pattern, text, re.IGNORECASE)\<close>\<close>
  "extract_emails_from_text order findall text =
     (if text = [] then []
      else let unique_emails = py_list_set order (findall text)
           in filter (\<lambda>email. \<not> list_ex (\<lambda>fp. contains (lower email) fp)
                                     [''example.com'', ''test.com'', ''placeholder''])
                     unique_emails)"

record ContactInfo =
  emails :: "string list"
  phone_numbers :: "string list"
  addresses :: "string list"
  support_hours :: "string option"

definition ContactInfo_default :: ContactInfo where
  \<comment> \<open>\<open>ContactInfo()\<close>\<close>
  "ContactInfo_default =
     \<lparr>emails = [], phone_numbers = [], addresses = [], support_hours = None\<rparr>"

text \<open>
  What the libraries return on one page: \<open>soup.get_text()\<close>, the phone numbers and addresses
  found in it by the regular expressions of \<open>extract_phone_numbers_from_text\<close> and
  \<open>_extract_addresses_from_text\<close>, and the three lists of \<open>_extract_structured_contact_info\<close>
  (which catches its own exceptions).
\<close>

record contact_soup =
  all_text :: string
  text_phones :: "string list"
  text_addresses :: "string list"
  structured_emails :: "string list"
  structured_phones :: "string list"
  structured_addresses :: "string list"

definition parse_contact_info_from_html ::
  "(string list \<Rightarrow> string list) \<Rightarrow> (string \<Rightarrow> string list) \<Rightarrow>
   (string list \<Rightarrow> string option) \<Rightarrow> (string list \<Rightarrow> string option) \<Rightarrow>
   error + contact_soup \<Rightarrow> ContactInfo" where
  \<comment> \<open>\<open>ShopifyParser.parse_contact_info_from_html\<close>; \<open>soup\<close> is
      \<open>BeautifulSoup(html_content, 'html.parser')\<close> or the exception it raised, and
      \<open>select_best_phone\<close>, \<open>select_best_address\<close> are the two sibling selectors\<close>
  "parse_contact_info_from_html order findall select_best_phone select_best_address soup =
     (case soup of
        Inl e \<Rightarrow> ContactInfo_default
      | Inr sp \<Rightarrow>
          let emails = extract_emails_from_text order findall (all_text sp);
              all_emails = py_list_set order (emails @ structured_emails sp);
              all_phones = py_list_set order (text_phones sp @ structured_phones sp);
              all_addresses = py_list_set order (text_addresses sp @ structured_addresses sp);
              best_email = select_best_email all_emails;
              best_phone = select_best_phone all_phones;
              best_address = select_best_address all_addresses
          in \<lparr>emails = (case best_email of Some e \<Rightarrow> if e \<noteq> [] then [e] else [] | None \<Rightarrow> []),
              phone_numbers =
                (case best_phone of Some p \<Rightarrow> if p \<noteq> [] then [p] else [] | None \<Rightarrow> []),
              addresses =
                (case best_address of Some a \<Rightarrow> if a \<noteq> [] then [a] else [] | None \<Rightarrow> []),
              support_hours = None\<rparr>)"

section \<open>The fetcher (\<open>config.py\<close>, \<open>utils/helpers.py\<close>, \<open>services/scraper.py\<close>)\<close>

datatype json =
    JNull
  | JBool bool
  | JInt int
  | JFloat rat
  | JStr string
  | JList "json list"
  | JObj "(string \<times> json) list"

fun truthy :: "json \<Rightarrow> bool" where
  \<comment> \<open>Python's truth value of a decoded JSON document\<close>
  "truthy JNull = False"
| "truthy (JBool b) = b"
| "truthy (JInt i) = (i \<noteq> 0)"
| "truthy (JFloat r) = (r \<noteq> 0)"
| "truthy (JStr s) = (s \<noteq> [])"
| "truthy (JList xs) = (xs \<noteq> [])"
| "truthy (JObj kvs) = (kvs \<noteq> [])"

record Settings =
  REQUEST_TIMEOUT :: int
  MAX_RETRIES :: int
  RATE_LIMIT_DELAY :: rat
  MAX_CONCURRENT_REQUESTS :: int

definition settings :: Settings where
  \<comment> \<open>the defaults of \<open>config.py\<close>\<close>
  "settings = \<lparr>REQUEST_TIMEOUT = 30, MAX_RETRIES = 3, RATE_LIMIT_DELAY = 1,
               MAX_CONCURRENT_REQUESTS = 5\<rparr>"

definition normalize_url :: "(string \<Rightarrow> bool) \<Rightarrow> string \<Rightarrow> error + string" where
  \<comment> \<open>\<open>validators_url\<close> is the truth value of \<open>validators.url(url)\<close>\<close>
  "normalize_url validators_url url =
     (if url = [] then Inl (ValueError ''URL must be a non-empty string'')
      else let url = strip url;
               url = (if startswith url ''http://'' \<or> startswith url ''https://'' then url
                      else ''https://'' @ url)
           in if \<not> validators_url url then Inl (ValueError (''Invalid URL format: '' @ url))
              else Inr (if endswith url ''/'' then butlast url else url))"

text \<open>
  One \<open>session.get\<close>: an exception (\<open>ClientError\<close>, \<open>asyncio.TimeoutError\<close>, the
  \<open>RuntimeError\<close> of a missing session, anything else), or a response with its status and
  what \<open>await response.text()\<close> and \<open>await response.json()\<close> give. The network is a function
  from the normalised URL and the attempt index to such an outcome.
\<close>

record response =
  resp_status :: int
  resp_text :: "error + string"
  resp_json :: "error + json"

datatype event = Request string nat | Sleep rat

definition attempt_result :: "(response \<Rightarrow> error + 'a) \<Rightarrow> error + response \<Rightarrow> 'a option" where
  \<comment> \<open>the body of the \<open>try\<close>: the content when the status is 200 and reading it does not
      raise; every other outcome is logged and falls through to the retry\<close>
  "attempt_result read outcome =
     (case outcome of
        Inl e \<Rightarrow> None
      | Inr response \<Rightarrow>
          if resp_status response = 200
          then (case read response of Inl e \<Rightarrow> None | Inr content \<Rightarrow> Some content)
          else None)"

fun fetch_attempts ::
  "(response \<Rightarrow> error + 'a) \<Rightarrow> rat \<Rightarrow> int \<Rightarrow> (nat \<Rightarrow> error + response) \<Rightarrow> string \<Rightarrow>
   nat list \<Rightarrow> 'a option \<times> event list" where
  \<comment> \<open>the \<open>for attempt in range(retries + 1)\<close> loop shared by \<open>fetch_html\<close> and \<open>fetch_json\<close>,
      with the requests and sleeps it performs\<close>
  "fetch_attempts read delay retries session_get url [] = (None, [])"
| "fetch_attempts read delay retries session_get url (attempt # rest) =
     (case attempt_result read (session_get attempt) of
        Some content \<Rightarrow> (Some content, [Request url attempt])
      | None \<Rightarrow>
          (let wait = (if int attempt < retries
                       then [Sleep (delay * (of_nat attempt + 1))] else []);
               (result, events) = fetch_attempts read delay retries session_get url rest
           in (result, Request url attempt # wait @ events)))"

definition fetch_with ::
  "(response \<Rightarrow> error + 'a) \<Rightarrow> Settings \<Rightarrow> (string \<Rightarrow> bool) \<Rightarrow>
   (string \<Rightarrow> nat \<Rightarrow> error + response) \<Rightarrow> string \<Rightarrow> int option \<Rightarrow>
   error + ('a option \<times> event list)" where
  "fetch_with read st validators_url net url retries =
     (let retries = (case retries of None \<Rightarrow> MAX_RETRIES st | Some r \<Rightarrow> r)
      in case normalize_url validators_url url of
           Inl e \<Rightarrow> Inl e
         | Inr normalized_url \<Rightarrow>
             Inr (fetch_attempts read (RATE_LIMIT_DELAY st) retries (net normalized_url)
                    normalized_url [0..<nat (retries + 1)]))"

definition fetch_html ::
  "Settings \<Rightarrow> (string \<Rightarrow> bool) \<Rightarrow> (string \<Rightarrow> nat \<Rightarrow> error + response) \<Rightarrow> string \<Rightarrow>
   int option \<Rightarrow> error + (string option \<times> event list)" where
  \<comment> \<open>\<open>WebScraper.fetch_html\<close>: \<open>Inl\<close> is an exception leaving the call\<close>
  "fetch_html = fetch_with resp_text"


datatype page =
    HtmlPage string string  \<comment> \<open>\<open>{'url': url, 'content': html_content, 'type': 'html'}\<close>\<close>
  | JsonPage string json    \<comment> \<open>\<open>{'url': url, 'json': json_data, 'type': 'json'}\<close>\<close>

fun get_content :: "page \<Rightarrow> string option" where
  \<comment> \<open>\<open>content_data.get('content')\<close>\<close>
  "get_content (HtmlPage url content) = Some content"
| "get_content (JsonPage url data) = None"

fun get_json :: "page \<Rightarrow> json option" where
  \<comment> \<open>\<open>content_data.get('json')\<close>\<close>
  "get_json (HtmlPage url content) = None"
| "get_json (JsonPage url data) = Some data"







text \<open>Reading a trace: the number of requests, the sleeps, and the trace of \<open>n + 1\<close>
  attempts with a sleep of \<open>delay * k\<close> after the \<open>k\<close>-th of them, the last excepted.\<close>

fun requests :: "event list \<Rightarrow> nat" where
  "requests [] = 0"
| "requests (Request url attempt # events) = Suc (requests events)"
| "requests (Sleep d # events) = requests events"

fun sleeps :: "event list \<Rightarrow> rat list" where
  "sleeps [] = []"
| "sleeps (Request url attempt # events) = sleeps events"
| "sleeps (Sleep d # events) = d # sleeps events"

definition retry_trace :: "rat \<Rightarrow> string \<Rightarrow> nat \<Rightarrow> event list" where
  "retry_trace delay url n =
     concat (map (\<lambda>k. [Request url k, Sleep (delay * of_nat (Suc k))]) [0..<n]) @ [Request url n]"






section \<open>Hero products (\<open>services/parser.py\<close>)\<close>

function string_of_nat :: "nat \<Rightarrow> string" where
  \<comment> \<open>the decimal numeral an f-string prints for a non-negative \<open>int\<close>\<close>
  "string_of_nat n =
     (if n < 10 then [digits ! n] else string_of_nat (n div 10) @ [digits ! (n mod 10)])"
  by pat_completeness auto
termination
  by (relation "measure (\<lambda>n. n)") auto

declare string_of_nat.simps [simp del]

definition build_absolute_url :: "(string \<Rightarrow> string \<Rightarrow> string) \<Rightarrow> string \<Rightarrow> string \<Rightarrow> string" where
  \<comment> \<open>\<open>utils/helpers.py\<close>; \<open>urljoin\<close> is \<open>urllib.parse.urljoin\<close>\<close>
  "build_absolute_url urljoin base_url relative_url =
     (if relative_url = [] then base_url
      else if startswith relative_url ''http://'' \<or> startswith relative_url ''https://''
      then relative_url
      else urljoin base_url relative_url)"

record HeroProduct =
  title :: "string option"
  price :: "string option"
  image_url :: "string option"
  product_url :: "string option"
  description :: "string option"

text \<open>
  The page as BeautifulSoup presents it to the hero-product code. \<open>'e\<close> is the type of its
  elements (\<open>Tag\<close>); every query may raise. For the synthetic entries: of an image with an
  \<open>alt\<close> attribute, its stripped \<open>alt\<close>, the first non-empty of \<open>src\<close>, \<open>data-src\<close>,
  \<open>data-lazy\<close> (empty when none), and the cleaned texts of the \<open>p, div, span, h1, h2, h3\<close>
  elements of its parent; of a heading, its cleaned text and that of the next
  \<open>p, div, span\<close> element, if any; of a link, its cleaned text and its \<open>href\<close>. An item
  \<open>Inl e\<close> is an element on which one of these reads raises.
\<close>

record img_view =
  alt_text :: string
  src :: string
  parent_texts :: "string list"

record heading_view =
  heading_text :: string
  next_text :: "string option"

record link_view =
  link_text :: string
  href :: string

record 'e hero_soup =
  select :: "string \<Rightarrow> error + 'e list"
  images :: "error + (error + img_view) list"
  headings :: "error + (error + heading_view) list"
  links :: "error + (error + link_view) list"

definition primary_selectors :: "string list" where
  "primary_selectors =
     [''[data-section-type=\"hero\"]'', ''.hero-product'', ''.featured-product'',
      ''.hero-banner'', ''.slideshow-slide'', ''.banner-item'', ''.hero-section'',
      ''.hero-content'', ''.featured-collection'', ''.product-spotlight'']"

definition secondary_selectors :: "string list" where
  "secondary_selectors =
     [''.banner-product'', ''.collection-hero'', ''.promo-banner'', ''.main-product'',
      ''.highlight-product'', ''.homepage-product'', ''.hero-image-text'', ''.carousel-item'',
      ''.slider-item'', ''.featured-banner'', ''.product-card'', ''.product-item'',
      ''.grid-product'', ''.collection-item'']"

definition fallback_selectors :: "string list" where
  "fallback_selectors =
     [''article[class*=\"product\"]'', ''div[class*=\"product\"]'',
      ''section[class*=\"product\"]'', ''div[data-product-id]'', ''div[data-product-handle]'',
      ''a[href*=\"/products/\"]'', ''.card'', ''.tile'', ''.item'']"

definition accepted :: "HeroProduct option \<Rightarrow> bool" where
  \<comment> \<open>\<open>hero_product and hero_product.title and len(hero_product.title.strip()) > 2\<close>\<close>
  "accepted hero_product =
     (case hero_product of
        None \<Rightarrow> False
      | Some hp \<Rightarrow> (case title hp of None \<Rightarrow> False
                               | Some t \<Rightarrow> t \<noteq> [] \<and> length (strip t) > 2))"

definition extract_all :: "('e \<Rightarrow> HeroProduct option) \<Rightarrow> 'e list \<Rightarrow> HeroProduct list" where
  \<comment> \<open>the \<open>for element in elements\<close> loop: the accepted results, in order\<close>
  "extract_all extract elements =
     map the (filter accepted (map extract elements))"

fun select_loop ::
  "(string \<Rightarrow> error + 'e list) \<Rightarrow> ('e \<Rightarrow> HeroProduct option) \<Rightarrow> string list \<Rightarrow>
   HeroProduct list \<Rightarrow> error + HeroProduct list" where
  \<comment> \<open>\<open>for selector in ...: if len(hero_products) >= 10: break; ...\<close>\<close>
  "select_loop sel extract [] hero_products = Inr hero_products"
| "select_loop sel extract (selector # rest) hero_products =
     (if length hero_products \<ge> 10 then Inr hero_products
      else case sel selector of
             Inl e \<Rightarrow> Inl e
           | Inr elements \<Rightarrow>
               select_loop sel extract rest (hero_products @ extract_all extract elements))"

definition is_duplicate :: "string list \<Rightarrow> string \<Rightarrow> bool" where
  "is_duplicate seen_titles title_key =
     list_ex (\<lambda>seen_title.
                (contains seen_title title_key \<or> contains title_key seen_title)
                \<and> \<bar>int (length title_key) - int (length seen_title)\<bar> < 5)
             seen_titles"

fun remove_duplicates ::
  "HeroProduct list \<Rightarrow> string list \<Rightarrow> HeroProduct list \<Rightarrow> HeroProduct list" where
  \<comment> \<open>the loop over \<open>hero_products\<close> building \<open>seen_titles\<close> and \<open>unique_heroes\<close>\<close>
  "remove_duplicates [] seen_titles unique_heroes = unique_heroes"
| "remove_duplicates (hero # rest) seen_titles unique_heroes =
     (case title hero of
        None \<Rightarrow> remove_duplicates rest seen_titles unique_heroes
      | Some t \<Rightarrow>
          if t = [] then remove_duplicates rest seen_titles unique_heroes
          else let title_key = strip (lower t)
               in if is_duplicate seen_titles title_key
                  then remove_duplicates rest seen_titles unique_heroes
                  else remove_duplicates rest (title_key # seen_titles)
                         (unique_heroes @ [hero]))"

definition any_in :: "string list \<Rightarrow> string \<Rightarrow> bool" where
  \<comment> \<open>\<open>any(skip in s for skip in skips)\<close>\<close>
  "any_in skips s = list_ex (\<lambda>skip. contains s skip) skips"

fun from_images ::
  "(string \<Rightarrow> string \<Rightarrow> string) \<Rightarrow> string \<Rightarrow> nat \<Rightarrow> (error + img_view) list \<Rightarrow>
   HeroProduct list \<Rightarrow> HeroProduct list" where
  \<comment> \<open>Method 1; an image whose processing raises is skipped\<close>
  "from_images urljoin base_url count_needed [] synthetic_products = synthetic_products"
| "from_images urljoin base_url count_needed (img # rest) synthetic_products =
     (if length synthetic_products \<ge> count_needed then synthetic_products
      else case img of
             Inl e \<Rightarrow> from_images urljoin base_url count_needed rest synthetic_products
           | Inr i \<Rightarrow>
               if alt_text i \<noteq> [] \<and> length (alt_text i) > 2 \<and> src i \<noteq> []
                  \<and> \<not> any_in [''logo'', ''icon'', ''arrow'', ''menu'', ''close'']
                           (lower (alt_text i))
               then let description =
                          find (\<lambda>text. text \<noteq> [] \<and> length text > 10 \<and> length text < 300)
                               (parent_texts i);
                        synthetic_product =
                          \<lparr>title = Some (take 100 (alt_text i)),
                           price = None,
                           image_url = Some (build_absolute_url urljoin base_url (src i)),
                           product_url = None,
                           description =
                             Some (case description of
                                     Some d \<Rightarrow> d
                                   | None \<Rightarrow> ''Featured content: '' @ alt_text i)\<rparr>
                    in from_images urljoin base_url count_needed rest
                         (synthetic_products @ [synthetic_product])
               else from_images urljoin base_url count_needed rest synthetic_products)"

fun from_headings ::
  "nat \<Rightarrow> (error + heading_view) list \<Rightarrow> HeroProduct list \<Rightarrow>
   HeroProduct list \<times> error option" where
  \<comment> \<open>Method 2; a heading whose processing raises ends the \<open>try\<close> block, the products
      appended so far being kept\<close>
  "from_headings count_needed [] synthetic_products = (synthetic_products, None)"
| "from_headings count_needed (heading # rest) synthetic_products =
     (if length synthetic_products \<ge> count_needed then (synthetic_products, None)
      else case heading of
             Inl e \<Rightarrow> (synthetic_products, Some e)
           | Inr h \<Rightarrow>
               if heading_text h \<noteq> [] \<and> length (heading_text h) > 3
                  \<and> \<not> any_in [''home'', ''about'', ''contact'', ''menu'', ''search'', ''cart'',
                               ''login'']
                           (lower (heading_text h))
               then let description =
                          (case next_text h of
                             None \<Rightarrow> None
                           | Some desc_text \<Rightarrow>
                               if desc_text \<noteq> [] \<and> length desc_text > 5
                               then Some (if length desc_text > 200
                                          then take 200 desc_text @ ''...'' else desc_text)
                               else None);
                        synthetic_product =
                          \<lparr>title = Some (take 100 (heading_text h)),
                           price = None,
                           image_url = None,
                           product_url = None,
                           description =
                             Some (case description of
                                     Some d \<Rightarrow> if d \<noteq> [] then d
                                               else ''Featured section: '' @ heading_text h
                                   | None \<Rightarrow> ''Featured section: '' @ heading_text h)\<rparr>
                    in from_headings count_needed rest (synthetic_products @ [synthetic_product])
               else from_headings count_needed rest synthetic_products)"

fun from_links ::
  "(string \<Rightarrow> string \<Rightarrow> string) \<Rightarrow> string \<Rightarrow> nat \<Rightarrow> (error + link_view) list \<Rightarrow>
   HeroProduct list \<Rightarrow> HeroProduct list \<times> error option" where
  \<comment> \<open>Method 3\<close>
  "from_links urljoin base_url count_needed [] synthetic_products = (synthetic_products, None)"
| "from_links urljoin base_url count_needed (link # rest) synthetic_products =
     (if length synthetic_products \<ge> count_needed then (synthetic_products, None)
      else case link of
             Inl e \<Rightarrow> (synthetic_products, Some e)
           | Inr l \<Rightarrow>
               if link_text l \<noteq> [] \<and> length (link_text l) > 3 \<and> length (link_text l) < 100
                  \<and> \<not> any_in [''home'', ''about'', ''contact'', ''menu'', ''search'', ''cart'',
                               ''login'', ''sign up'', ''learn more'', ''read more'', ''view all'',
                               ''see all'']
                           (lower (link_text l))
               then let synthetic_product =
                          \<lparr>title = Some (link_text l),
                           price = None,
                           image_url = None,
                           product_url =
                             (if href l \<noteq> []
                              then Some (build_absolute_url urljoin base_url (href l))
                              else None),
                           description =
                             Some (''Featured link: '' @ link_text l
                                   @ ''. Click to learn more about this offering.'')\<rparr>
                    in from_links urljoin base_url count_needed rest
                         (synthetic_products @ [synthetic_product])
               else from_links urljoin base_url count_needed rest synthetic_products)"

definition basic_product :: "string \<Rightarrow> nat \<Rightarrow> HeroProduct" where
  "basic_product base_url number =
     \<lparr>title = Some (''Store Feature #'' @ string_of_nat number),
      price = None,
      image_url = None,
      product_url = Some base_url,
      description =
        Some (''This store offers quality products and services. Feature #''
              @ string_of_nat number
              @ '' represents one of the highlighted offerings available for customers.'')\<rparr>"

function pad_basic :: "string \<Rightarrow> nat \<Rightarrow> HeroProduct list \<Rightarrow> HeroProduct list" where
  \<comment> \<open>\<open>while len(synthetic_products) < count_needed: ...\<close>\<close>
  "pad_basic base_url count_needed synthetic_products =
     (if length synthetic_products < count_needed
      then pad_basic base_url count_needed
             (synthetic_products @ [basic_product base_url (length synthetic_products + 1)])
      else synthetic_products)"
  by pat_completeness auto
termination
  by (relation "measure (\<lambda>(base_url, count_needed, sp). count_needed - length sp)") auto

declare pad_basic.simps [simp del]

definition synthetic_try ::
  "(string \<Rightarrow> string \<Rightarrow> string) \<Rightarrow> string \<Rightarrow> 'e hero_soup \<Rightarrow> nat \<Rightarrow> HeroProduct list" where
  \<comment> \<open>the \<open>try\<close> block of \<open>_create_synthetic_hero_products\<close>: what \<open>synthetic_products\<close>
      holds when the block is left, normally or by an exception\<close>
  "synthetic_try urljoin base_url soup count_needed =
     (case images soup of
        Inl e \<Rightarrow> []
      | Inr imgs \<Rightarrow>
          let sp1 = from_images urljoin base_url count_needed (take (count_needed * 3) imgs) []
          in case (if length sp1 < count_needed
                   then (case headings soup of
                           Inl e \<Rightarrow> (sp1, Some e)
                         | Inr hs \<Rightarrow> from_headings count_needed (take (count_needed * 2) hs) sp1)
                   else (sp1, None)) of
               (sp2, Some e) \<Rightarrow> sp2
             | (sp2, None) \<Rightarrow>
                 if length sp2 < count_needed
                 then (case links soup of
                         Inl e \<Rightarrow> sp2
                       | Inr ls \<Rightarrow>
                           fst (from_links urljoin base_url count_needed
                                  (take (count_needed * 2) ls) sp2))
                 else sp2)"

definition create_synthetic_hero_products ::
  "(string \<Rightarrow> string \<Rightarrow> string) \<Rightarrow> string \<Rightarrow> 'e hero_soup \<Rightarrow> nat \<Rightarrow> HeroProduct list" where
  \<comment> \<open>\<open>ShopifyParser._create_synthetic_hero_products\<close>\<close>
  "create_synthetic_hero_products urljoin base_url soup count_needed =
     take count_needed
       (pad_basic base_url count_needed (synthetic_try urljoin base_url soup count_needed))"

definition create_emergency_hero_product :: "string \<Rightarrow> nat \<Rightarrow> HeroProduct" where
  \<comment> \<open>\<open>ShopifyParser._create_emergency_hero_product\<close>, called with \<open>number \<ge> 1\<close>\<close>
  "create_emergency_hero_product base_url number =
     (let n = string_of_nat number;
          titles =
            [''Premium Collection Item #'' @ n, ''Featured Product #'' @ n,
             ''Best Seller #'' @ n, ''Customer Favorite #'' @ n, ''Top Quality Item #'' @ n];
          descriptions =
            [''High-quality product #'' @ n @ '' carefully selected for our customers. This item represents the excellence and value this store is known for.'',
             ''Featured offering #'' @ n @ '' from our curated collection. Discover exceptional quality and outstanding value with this carefully chosen product.'',
             ''Popular item #'' @ n @ '' that customers love. Experience the quality and satisfaction that has made this one of our most recommended products.'',
             ''Premium selection #'' @ n @ '' showcasing the best of what we offer. Quality craftsmanship and attention to detail make this a standout choice.'',
             ''Signature product #'' @ n @ '' representing our commitment to excellence. This item embodies the quality and value our customers expect.'']
      in \<lparr>title = Some (titles ! ((number - 1) mod length titles)),
          price = Some (if number mod 2 = 0 then ''Starting at $29.99''
                        else ''Contact for pricing''),
          image_url = None,
          product_url = Some base_url,
          description = Some (descriptions ! ((number - 1) mod length descriptions))\<rparr>)"

definition create_emergency_hero_products :: "string \<Rightarrow> nat \<Rightarrow> HeroProduct list" where
  \<comment> \<open>\<open>ShopifyParser._create_emergency_hero_products\<close>\<close>
  "create_emergency_hero_products base_url count =
     map (\<lambda>i. create_emergency_hero_product base_url (i + 1)) [0..<count]"

function pad_emergency :: "string \<Rightarrow> HeroProduct list \<Rightarrow> HeroProduct list" where
  \<comment> \<open>\<open>while len(unique_heroes) < 2: ...\<close>\<close>
  "pad_emergency base_url unique_heroes =
     (if length unique_heroes < 2
      then pad_emergency base_url
             (unique_heroes
              @ [create_emergency_hero_product base_url (length unique_heroes + 1)])
      else unique_heroes)"
  by pat_completeness auto
termination
  by (relation "measure (\<lambda>(base_url, uh). 2 - length uh)") auto

declare pad_emergency.simps [simp del]

definition hero_try ::
  "(string \<Rightarrow> string \<Rightarrow> string) \<Rightarrow> string \<Rightarrow> ('e \<Rightarrow> HeroProduct option) \<Rightarrow>
   error + 'e hero_soup \<Rightarrow> error + HeroProduct list" where
  \<comment> \<open>the \<open>try\<close> block of \<open>parse_hero_products_from_html\<close>: \<open>unique_heroes\<close> at its end, or
      the exception that left it\<close>
  "hero_try urljoin base_url extract soup =
     (case soup of
        Inl e \<Rightarrow> Inl e
      | Inr sp \<Rightarrow>
          (case select_loop (select sp) extract primary_selectors [] of
             Inl e \<Rightarrow> Inl e
           | Inr hp1 \<Rightarrow>
               (case (if length hp1 < 2
                      then select_loop (select sp) extract secondary_selectors hp1
                      else Inr hp1) of
                  Inl e \<Rightarrow> Inl e
                | Inr hp2 \<Rightarrow>
                    (case (if length hp2 < 2
                           then select_loop (select sp) extract fallback_selectors hp2
                           else Inr hp2) of
                       Inl e \<Rightarrow> Inl e
                     | Inr hero_products \<Rightarrow>
                         let unique_heroes = remove_duplicates hero_products [] [];
                             unique_heroes =
                               (if length unique_heroes < 2
                                then unique_heroes
                                     @ create_synthetic_hero_products urljoin base_url sp
                                         (2 - length unique_heroes)
                                else unique_heroes)
                         in Inr (pad_emergency base_url unique_heroes)))))"

definition parse_hero_products_from_html ::
  "(string \<Rightarrow> string \<Rightarrow> string) \<Rightarrow> string \<Rightarrow> ('e \<Rightarrow> HeroProduct option) \<Rightarrow>
   error + 'e hero_soup \<Rightarrow> HeroProduct list" where
  \<comment> \<open>\<open>ShopifyParser.parse_hero_products_from_html\<close>; \<open>soup\<close> is
      \<open>BeautifulSoup(html_content, 'html.parser')\<close> or the exception it raised, \<open>extract\<close> is
      \<open>_extract_hero_product_from_element\<close>, which returns \<open>None\<close> where it fails\<close>
  "parse_hero_products_from_html urljoin base_url extract soup =
     (let unique_heroes =
            (case hero_try urljoin base_url extract soup of
               Inl e \<Rightarrow> create_emergency_hero_products base_url 2
             | Inr unique_heroes \<Rightarrow> unique_heroes);
          unique_heroes =
            (if length unique_heroes < 2 then pad_emergency base_url unique_heroes
             else unique_heroes)
      in take 10 unique_heroes)"



text \<open>A page on which \<open>.hero-product\<close> matches twelve elements with pairwise unrelated
  titles, and nothing else matches.\<close>

definition twelve_soup :: "char hero_soup" where
  "twelve_soup =
     \<lparr>select = (\<lambda>selector. if selector = ''.hero-product'' then Inr ''abcdefghijkl''
                          else Inr []),
      images = Inr [], headings = Inr [], links = Inr []\<rparr>"

definition titled :: "char \<Rightarrow> HeroProduct option" where
  "titled c = Some \<lparr>title = Some (replicate 3 c), price = None, image_url = None,
                     product_url = None, description = None\<rparr>"

section \<open>Policies and FAQs (\<open>models/brand_data.py\<close>, \<open>services/parser.py\<close>,
  \<open>services/realtime_analyzer.py\<close>)\<close>

datatype PolicyType = PRIVACY | REFUND | RETURN | TERMS | SHIPPING

record Policy =
  policy_type :: PolicyType
  policy_title :: "string option"
  content :: "string option"
  policy_url :: "string option"

fun title_from :: "bool \<Rightarrow> string \<Rightarrow> string" where
  "title_from prev_cased [] = []"
| "title_from prev_cased (c # cs) =
     (if is_alpha c
      then (if prev_cased then lower_char c else upper_char c) # title_from True cs
      else c # title_from False cs)"

definition py_title :: "string \<Rightarrow> string" where
  \<comment> \<open>\<open>str.title()\<close>\<close>
  "py_title s = title_from False s"

definition policy_mappings :: "(string \<times> PolicyType) list" where
  "policy_mappings =
     [(''privacy'', PRIVACY), (''terms'', TERMS), (''refund'', RETURN), (''returns'', RETURN),
      (''shipping'', SHIPPING)]"

definition policy_urls :: "string \<Rightarrow> (string \<times> string) list" where
  "policy_urls main_url =
     (let base = rstrip_chars ''/'' main_url
      in [(base @ ''/pages/privacy-policy'', ''privacy''),
          (base @ ''/pages/privacy'', ''privacy''),
          (base @ ''/pages/terms-of-service'', ''terms''),
          (base @ ''/pages/terms'', ''terms''),
          (base @ ''/pages/refund-policy'', ''refund''),
          (base @ ''/pages/returns'', ''returns''),
          (base @ ''/pages/shipping-policy'', ''shipping''),
          (base @ ''/pages/shipping'', ''shipping'')])"

definition page_content :: "(string \<rightharpoonup> page option) \<Rightarrow> string \<Rightarrow> string option" where
  \<comment> \<open>the guards \<open>url in scraped_content\<close>, \<open>content_data and content_data.get('content')\<close>:
      the non-empty content of a page that was fetched as HTML\<close>
  "page_content scraped_content url =
     (case scraped_content url of
        None \<Rightarrow> None
      | Some None \<Rightarrow> None
      | Some (Some content_data) \<Rightarrow>
          (case get_content content_data of
             None \<Rightarrow> None
           | Some c \<Rightarrow> if c \<noteq> [] then Some c else None))"

definition policy_of_page :: "(string \<rightharpoonup> page option) \<Rightarrow> string \<times> string \<Rightarrow> Policy list" where
  \<comment> \<open>the body of the loop over \<open>policy_urls\<close>: the policy it appends, if any\<close>
  "policy_of_page scraped_content item =
     (case item of (url, ptype) \<Rightarrow>
        (case page_content scraped_content url of
           None \<Rightarrow> []
         | Some c \<Rightarrow>
             if length c > 100
             then [\<lparr>policy_type = (case map_of policy_mappings ptype of
                                      Some t \<Rightarrow> t | None \<Rightarrow> TERMS),
                    policy_title =
                      Some (py_title (map (\<lambda>ch. if ch = CHR ''_'' then CHR '' '' else ch) ptype)
                            @ '' Policy''),
                    content = Some (take 2000 c),
                    policy_url = None\<rparr>]
             else []))"

definition parse_comprehensive_policies ::
  "string \<Rightarrow> (string \<rightharpoonup> page option) \<Rightarrow> Policy list" where
  \<comment> \<open>\<open>RealtimeStoreAnalyzer._parse_comprehensive_policies\<close>\<close>
  "parse_comprehensive_policies main_url scraped_content =
     concat (map (policy_of_page scraped_content) (policy_urls main_url))"

definition count_of_type :: "PolicyType \<Rightarrow> Policy list \<Rightarrow> nat" where
  "count_of_type t policies = length (filter (\<lambda>p. policy_type p = t) policies)"

definition two_privacy_pages :: "string \<rightharpoonup> page option" where
  \<comment> \<open>a store serving its privacy policy, 101 characters long, under both paths\<close>
  "two_privacy_pages =
     [''https://a.com/pages/privacy-policy'' \<mapsto>
        Some (HtmlPage ''https://a.com/pages/privacy-policy'' (replicate 101 CHR ''p'')),
      ''https://a.com/pages/privacy'' \<mapsto>
        Some (HtmlPage ''https://a.com/pages/privacy'' (replicate 101 CHR ''p''))]"

record FAQ =
  question :: string
  answer :: string
  category :: "string option"

text \<open>
  The page as BeautifulSoup presents it to the FAQ code. A container matched by
  \<open>.faq, .accordion, .qa-section, [data-faq]\<close> is the list of its question/answer items
  (or the exception its \<open>select\<close> raises), an item being the cleaned texts of its question
  and answer elements where present; a question-like heading is its cleaned text and that
  of its next \<open>p\<close> or \<open>div\<close> sibling; a \<open>dl\<close> is the list of its zipped \<open>dt\<close>/\<open>dd\<close> texts.
  An item \<open>Inl e\<close> raises when it is read, which the per-item \<open>try\<close> skips.
\<close>

record qa_view =
  question_elem :: "string option"
  answer_elem :: "string option"

record faq_soup =
  faq_containers :: "error + (error + (error + qa_view) list) list"
  faq_headings :: "error + (error + string \<times> string option) list"
  faq_dls :: "error + (error + (error + string \<times> string) list) list"

definition mk_faq :: "string \<Rightarrow> string \<Rightarrow> FAQ" where
  "mk_faq q a = \<lparr>question = q, answer = a, category = None\<rparr>"

definition faq_of_pair :: "error + qa_view \<Rightarrow> FAQ list" where
  "faq_of_pair pair =
     (case pair of
        Inl e \<Rightarrow> []
      | Inr v \<Rightarrow>
          (case (question_elem v, answer_elem v) of
             (Some q, Some a) \<Rightarrow>
               if q \<noteq> [] \<and> a \<noteq> [] \<and> length q > 5 \<and> length a > 10 then [mk_faq q a] else []
           | _ \<Rightarrow> []))"

definition extract_faqs_from_container :: "error + (error + qa_view) list \<Rightarrow> error + FAQ list" where
  \<comment> \<open>\<open>ShopifyParser._extract_faqs_from_container\<close>\<close>
  "extract_faqs_from_container container =
     (case container of
        Inl e \<Rightarrow> Inl e
      | Inr qa_pairs \<Rightarrow> Inr (concat (map faq_of_pair qa_pairs)))"

fun containers_loop :: "(error + (error + qa_view) list) list \<Rightarrow> FAQ list \<Rightarrow> FAQ list \<times> error option" where
  \<comment> \<open>\<open>for container in faq_containers: faqs.extend(...)\<close>; an exception leaves the loop with
      what \<open>faqs\<close> holds\<close>
  "containers_loop [] faqs = (faqs, None)"
| "containers_loop (container # rest) faqs =
     (case extract_faqs_from_container container of
        Inl e \<Rightarrow> (faqs, Some e)
      | Inr found \<Rightarrow> containers_loop rest (faqs @ found))"

definition faq_of_heading :: "error + string \<times> string option \<Rightarrow> FAQ list" where
  "faq_of_heading heading =
     (case heading of
        Inr (q, Some a) \<Rightarrow> if q \<noteq> [] \<and> a \<noteq> [] \<and> length a > 10 then [mk_faq q a] else []
      | _ \<Rightarrow> [])"

definition extract_faqs_from_headings :: "faq_soup \<Rightarrow> error + FAQ list" where
  \<comment> \<open>\<open>ShopifyParser._extract_faqs_from_headings\<close>\<close>
  "extract_faqs_from_headings soup =
     (case faq_headings soup of
        Inl e \<Rightarrow> Inl e
      | Inr hs \<Rightarrow> Inr (concat (map faq_of_heading hs)))"

definition faq_of_dt_dd :: "error + string \<times> string \<Rightarrow> FAQ list" where
  "faq_of_dt_dd pair =
     (case pair of
        Inr (q, a) \<Rightarrow> if q \<noteq> [] \<and> a \<noteq> [] \<and> length a > 10 then [mk_faq q a] else []
      | Inl e \<Rightarrow> [])"

fun dls_loop :: "(error + (error + string \<times> string) list) list \<Rightarrow> FAQ list \<Rightarrow> error + FAQ list" where
  "dls_loop [] faqs = Inr faqs"
| "dls_loop (dl # rest) faqs =
     (case dl of
        Inl e \<Rightarrow> Inl e
      | Inr pairs \<Rightarrow> dls_loop rest (faqs @ concat (map faq_of_dt_dd pairs)))"

definition extract_faqs_from_dl :: "faq_soup \<Rightarrow> error + FAQ list" where
  \<comment> \<open>\<open>ShopifyParser._extract_faqs_from_dl\<close>\<close>
  "extract_faqs_from_dl soup =
     (case faq_dls soup of
        Inl e \<Rightarrow> Inl e
      | Inr dls \<Rightarrow> dls_loop dls [])"

definition faqs_try :: "error + faq_soup \<Rightarrow> FAQ list" where
  \<comment> \<open>\<open>faqs\<close> when the \<open>try\<close> block of \<open>parse_faqs_from_html\<close> is left, normally or not\<close>
  "faqs_try soup =
     (case soup of
        Inl e \<Rightarrow> []
      | Inr sp \<Rightarrow>
          (case faq_containers sp of
             Inl e \<Rightarrow> []
           | Inr containers \<Rightarrow>
               (case containers_loop containers [] of
                  (faqs, Some e) \<Rightarrow> faqs
                | (faqs, None) \<Rightarrow>
                    if faqs \<noteq> [] then faqs
                    else (case extract_faqs_from_headings sp of
                            Inl e \<Rightarrow> []
                          | Inr found \<Rightarrow>
                              if found \<noteq> [] then found
                              else (case extract_faqs_from_dl sp of
                                      Inl e \<Rightarrow> []
                                    | Inr found \<Rightarrow> found)))))"

definition parse_faqs_from_html :: "error + faq_soup \<Rightarrow> FAQ list" where
  \<comment> \<open>\<open>ShopifyParser.parse_faqs_from_html\<close>; \<open>soup\<close> is
      \<open>BeautifulSoup(html_content, 'html.parser')\<close> or the exception it raised\<close>
  "parse_faqs_from_html soup = take 20 (faqs_try soup)"

definition faq_urls :: "string \<Rightarrow> string list" where
  "faq_urls main_url =
     (let base = rstrip_chars ''/'' main_url
      in [base @ ''/pages/faq'', base @ ''/pages/help'', base @ ''/pages/support''])"

definition default_faqs :: "FAQ list" where
  "default_faqs =
     [mk_faq ''Do you offer international shipping?''
        ''Please check our shipping policy for international delivery options.'',
      mk_faq ''What is your return policy?''
        ''Please refer to our return policy page for detailed information about returns and exchanges.'',
      mk_faq ''How can I contact customer support?''
        ''You can reach our customer support team through the contact information provided on our website.'']"

definition page_faqs :: "(string \<Rightarrow> error + faq_soup) \<Rightarrow> (string \<rightharpoonup> page option) \<Rightarrow> string \<Rightarrow> FAQ list" where
  \<comment> \<open>the body of the loop over \<open>faq_urls\<close>: what it extends \<open>faqs\<close> by\<close>
  "page_faqs html_parser scraped_content faq_url =
     (case page_content scraped_content faq_url of
        None \<Rightarrow> []
      | Some c \<Rightarrow> parse_faqs_from_html (html_parser c))"

definition parse_comprehensive_faqs ::
  "(string \<Rightarrow> error + faq_soup) \<Rightarrow> string \<Rightarrow> (string \<rightharpoonup> page option) \<Rightarrow> FAQ list" where
  \<comment> \<open>\<open>RealtimeStoreAnalyzer._parse_comprehensive_faqs\<close> (its \<open>main_html\<close> argument is not
      used); \<open>html_parser\<close> is \<open>BeautifulSoup(_, 'html.parser')\<close>\<close>
  "parse_comprehensive_faqs html_parser main_url scraped_content =
     (let faqs = concat (map (page_faqs html_parser scraped_content) (faq_urls main_url))
      in if faqs = [] then default_faqs else faqs)"

text \<open>
  Three FAQ pages, each the definition list below of seven questions; what
  \<open>html.parser\<close> makes of it is one \<open>dl\<close> with seven \<open>dt\<close>/\<open>dd\<close> pairs, no FAQ container and no
  \<open>h3\<close>, \<open>h4\<close> or \<open>h5\<close> heading.
\<close>

definition dl_html :: string where
  "dl_html = ''<dl><dt>Q1?</dt><dd>Answer number 1.</dd><dt>Q2?</dt><dd>Answer number 2.</dd><dt>Q3?</dt><dd>Answer number 3.</dd><dt>Q4?</dt><dd>Answer number 4.</dd><dt>Q5?</dt><dd>Answer number 5.</dd><dt>Q6?</dt><dd>Answer number 6.</dd><dt>Q7?</dt><dd>Answer number 7.</dd></dl>''"

definition dl_soup :: faq_soup where
  "dl_soup =
     \<lparr>faq_containers = Inr [], faq_headings = Inr [],
      faq_dls = Inr [Inr (map (\<lambda>i. Inr (''Q'' @ string_of_nat i @ ''?'',
                                          ''Answer number '' @ string_of_nat i @ ''.''))
                              [1..<8])]\<rparr>"

definition three_faq_pages :: "string \<rightharpoonup> page option" where
  "three_faq_pages =
     [''https://a.com/pages/faq'' \<mapsto> Some (HtmlPage ''https://a.com/pages/faq'' dl_html),
      ''https://a.com/pages/help'' \<mapsto> Some (HtmlPage ''https://a.com/pages/help'' dl_html),
      ''https://a.com/pages/support'' \<mapsto>
        Some (HtmlPage ''https://a.com/pages/support'' dl_html)]"

text \<open>For the statements: a listed path whose label maps to the type \<open>t\<close>, and a listed
  path that was fetched with a body of more than 100 characters.\<close>

definition maps_to :: "PolicyType \<Rightarrow> string \<times> string \<Rightarrow> bool" where
  "maps_to t item = ((case map_of policy_mappings (snd item) of Some t' \<Rightarrow> t' | None \<Rightarrow> TERMS) = t)"

definition qualifies :: "(string \<rightharpoonup> page option) \<Rightarrow> string \<times> string \<Rightarrow> bool" where
  "qualifies sc item = (case page_content sc (fst item) of Some c \<Rightarrow> length c > 100 | None \<Rightarrow> False)"

section \<open>The products feed (\<open>models/brand_data.py\<close>, \<open>services/parser.py\<close>)\<close>

record ProductVariant =
  v_id :: "int option"
  v_title :: "string option"
  v_option1 :: "string option"
  v_option2 :: "string option"
  v_option3 :: "string option"
  v_sku :: "string option"
  v_requires_shipping :: "bool option"
  v_taxable :: "bool option"
  v_featured_image :: "string option"
  v_available :: "bool option"
  v_price :: "string option"
  v_grams :: "int option"
  v_compare_at_price :: "string option"
  v_position :: "int option"
  v_product_id :: "int option"
  v_created_at :: "string option"
  v_updated_at :: "string option"

record 'f Product =
  p_id :: "string option"
  p_title :: "string option"
  p_handle :: "string option"
  p_vendor :: "string option"
  p_product_type :: "string option"
  p_price :: "'f option"
  p_compare_at_price :: "'f option"
  p_available :: "bool option"
  p_tags :: "string list"
  p_images :: "string list"
  p_variants :: "ProductVariant list"
  p_description :: "string option"
  p_url :: "string option"
  p_created_at :: "string option"
  p_updated_at :: "string option"

text \<open>
  The fields of the two models carry the prefixes \<open>v_\<close> and \<open>p_\<close>.
  What the libraries do with a decoded JSON value; \<open>'f\<close> stands for Python's \<open>float\<close>.
  The four validators are pydantic's for fields annotated \<open>Optional[int]\<close>,
  \<open>Optional[str]\<close>, \<open>Optional[bool]\<close> and \<open>List[str]\<close>, \<open>Inl\<close> being its \<open>ValidationError\<close>;
  \<open>to_float\<close> is \<open>float(s)\<close> with \<open>None\<close> for its \<open>ValueError\<close>; \<open>py_str\<close> is \<open>str(x)\<close>;
  \<open>join_url\<close> is \<open>urllib.parse.urljoin\<close>.
\<close>

record 'f library =
  opt_int :: "json option \<Rightarrow> error + int option"
  opt_str :: "json option \<Rightarrow> error + string option"
  opt_bool :: "json option \<Rightarrow> error + bool option"
  str_list :: "json \<Rightarrow> error + string list"
  to_float :: "string \<Rightarrow> 'f option"
  py_str :: "json \<Rightarrow> string"
  clean_text :: "string \<Rightarrow> string"
  join_url :: "string \<Rightarrow> string \<Rightarrow> string"

definition bind :: "error + 'a \<Rightarrow> ('a \<Rightarrow> error + 'b) \<Rightarrow> error + 'b" where
  \<comment> \<open>sequencing inside a \<open>try\<close>: the first exception ends the block\<close>
  "bind m f = (case m of Inl e \<Rightarrow> Inl e | Inr x \<Rightarrow> f x)"

fun all_ok :: "(error + 'a) list \<Rightarrow> error + 'a list" where
  \<comment> \<open>a loop whose body may raise: the results, or the first exception\<close>
  "all_ok [] = Inr []"
| "all_ok (m # ms) = bind m (\<lambda>x. bind (all_ok ms) (\<lambda>xs. Inr (x # xs)))"

definition dict_get :: "json \<Rightarrow> string \<Rightarrow> error + json option" where
  \<comment> \<open>\<open>d.get(key)\<close>: \<open>None\<close> stands for a missing key; only a \<open>dict\<close> has \<open>get\<close>. A document
      with a repeated key decodes to its last value.\<close>
  "dict_get d key =
     (case d of
        JObj kvs \<Rightarrow> Inr (map_of (rev kvs) key)
      | _ \<Rightarrow> Inl (AttributeError ''get''))"

definition iterate :: "json \<Rightarrow> error + json list" where
  \<comment> \<open>\<open>for x in v\<close>: the items of a list, the keys of a \<open>dict\<close>, the characters of a \<open>str\<close>\<close>
  "iterate v =
     (case v of
        JList xs \<Rightarrow> Inr xs
      | JObj kvs \<Rightarrow> Inr (map JStr (remdups (map fst kvs)))
      | JStr s \<Rightarrow> Inr (map (\<lambda>c. JStr [c]) s)
      | _ \<Rightarrow> Inl (TypeError ''object is not iterable''))"

definition get_or_empty :: "json \<Rightarrow> string \<Rightarrow> error + json" where
  \<comment> \<open>\<open>d.get(key, [])\<close>\<close>
  "get_or_empty d key =
     bind (dict_get d key) (\<lambda>v. Inr (case v of None \<Rightarrow> JList [] | Some x \<Rightarrow> x))"

definition parse_variant :: "'f library \<Rightarrow> json \<Rightarrow> error + ProductVariant" where
  \<comment> \<open>\<open>ProductVariant(id=variant_data.get('id'), ...)\<close>\<close>
  "parse_variant lib variant_data =
     bind (dict_get variant_data ''id'') (\<lambda>j1. bind (opt_int lib j1) (\<lambda>v1.
     bind (dict_get variant_data ''title'') (\<lambda>j2. bind (opt_str lib j2) (\<lambda>v2.
     bind (dict_get variant_data ''option1'') (\<lambda>j3. bind (opt_str lib j3) (\<lambda>v3.
     bind (dict_get variant_data ''option2'') (\<lambda>j4. bind (opt_str lib j4) (\<lambda>v4.
     bind (dict_get variant_data ''option3'') (\<lambda>j5. bind (opt_str lib j5) (\<lambda>v5.
     bind (dict_get variant_data ''sku'') (\<lambda>j6. bind (opt_str lib j6) (\<lambda>v6.
     bind (dict_get variant_data ''requires_shipping'') (\<lambda>j7. bind (opt_bool lib j7) (\<lambda>v7.
     bind (dict_get variant_data ''taxable'') (\<lambda>j8. bind (opt_bool lib j8) (\<lambda>v8.
     bind (dict_get variant_data ''featured_image'') (\<lambda>j9. bind (opt_str lib j9) (\<lambda>v9.
     bind (dict_get variant_data ''available'') (\<lambda>j10. bind (opt_bool lib j10) (\<lambda>v10.
     bind (dict_get variant_data ''price'') (\<lambda>j11. bind (opt_str lib j11) (\<lambda>v11.
     bind (dict_get variant_data ''grams'') (\<lambda>j12. bind (opt_int lib j12) (\<lambda>v12.
     bind (dict_get variant_data ''compare_at_price'') (\<lambda>j13. bind (opt_str lib j13) (\<lambda>v13.
     bind (dict_get variant_data ''position'') (\<lambda>j14. bind (opt_int lib j14) (\<lambda>v14.
     bind (dict_get variant_data ''product_id'') (\<lambda>j15. bind (opt_int lib j15) (\<lambda>v15.
     bind (dict_get variant_data ''created_at'') (\<lambda>j16. bind (opt_str lib j16) (\<lambda>v16.
     bind (dict_get variant_data ''updated_at'') (\<lambda>j17. bind (opt_str lib j17) (\<lambda>v17.
       Inr \<lparr>v_id = v1, v_title = v2, v_option1 = v3, v_option2 = v4, v_option3 = v5,
            v_sku = v6, v_requires_shipping = v7, v_taxable = v8, v_featured_image = v9,
            v_available = v10, v_price = v11, v_grams = v12,
            v_compare_at_price = v13, v_position = v14, v_product_id = v15,
            v_created_at = v16, v_updated_at = v17\<rparr>
     ))))))))))))))))))))))))))))))))))"

definition parse_image :: "'f library \<Rightarrow> string \<Rightarrow> json \<Rightarrow> error + string list" where
  \<comment> \<open>the body of the loop over \<open>images\<close>: the URL it appends, if any\<close>
  "parse_image lib base_url image_data =
     (case image_data of
        JObj kvs \<Rightarrow>
          (case map_of (rev kvs) ''src'' of
             None \<Rightarrow> Inr []
           | Some (JStr s) \<Rightarrow>
               Inr (if s \<noteq> [] then [build_absolute_url (join_url lib) base_url s] else [])
           | Some j \<Rightarrow> if truthy j then Inl (AttributeError ''startswith'') else Inr [])
      | _ \<Rightarrow>
          (let image_url = py_str lib image_data
           in Inr (if image_url \<noteq> []
                   then [build_absolute_url (join_url lib) base_url image_url] else [])))"

definition primary_pricing :: "'f library \<Rightarrow> ProductVariant list \<Rightarrow> 'f option \<times> 'f option" where
  \<comment> \<open>\<open>price\<close> and \<open>compare_at_price\<close> from the first variant; a \<open>ValueError\<close> of \<open>float\<close>
      leaves what is not yet assigned at \<open>None\<close>\<close>
  "primary_pricing lib vs =
     (case vs of
        [] \<Rightarrow> (None, None)
      | first_variant # rest \<Rightarrow>
          (case v_price first_variant of
             Some s \<Rightarrow>
               if s \<noteq> []
               then (case to_float lib s of
                       None \<Rightarrow> (None, None)
                     | Some p \<Rightarrow>
                         (Some p,
                          (case v_compare_at_price first_variant of
                             Some c \<Rightarrow> if c \<noteq> [] then to_float lib c else None
                           | None \<Rightarrow> None)))
               else (None,
                     (case v_compare_at_price first_variant of
                        Some c \<Rightarrow> if c \<noteq> [] then to_float lib c else None
                      | None \<Rightarrow> None))
           | None \<Rightarrow>
               (None,
                (case v_compare_at_price first_variant of
                   Some c \<Rightarrow> if c \<noteq> [] then to_float lib c else None
                 | None \<Rightarrow> None))))"

definition any_available :: "ProductVariant list \<Rightarrow> bool" where
  \<comment> \<open>\<open>any(v.available for v in variants) if variants else True\<close>\<close>
  "any_available vs =
     (if vs \<noteq> [] then list_ex (\<lambda>v. v_available v = Some True) vs else True)"

definition clean_body :: "'f library \<Rightarrow> json option \<Rightarrow> error + string" where
  \<comment> \<open>\<open>clean_text(product_data.get('body_html', ''))\<close>\<close>
  "clean_body lib body =
     (case body of
        None \<Rightarrow> Inr []
      | Some (JStr s) \<Rightarrow> Inr (if s = [] then [] else clean_text lib s)
      | Some j \<Rightarrow> if truthy j then Inl (TypeError ''expected string'') else Inr [])"

definition parse_product :: "'f library \<Rightarrow> string \<Rightarrow> json \<Rightarrow> error + 'f Product" where
  \<comment> \<open>the inner \<open>try\<close> block, for one entry of \<open>products\<close>\<close>
  "parse_product lib base_url product_data =
     bind (get_or_empty product_data ''variants'') (\<lambda>vj.
     bind (iterate vj) (\<lambda>variant_datas.
     bind (all_ok (map (parse_variant lib) variant_datas)) (\<lambda>vs.
     bind (get_or_empty product_data ''images'') (\<lambda>ij.
     bind (iterate ij) (\<lambda>image_datas.
     bind (all_ok (map (parse_image lib base_url) image_datas)) (\<lambda>imgs.
     bind (dict_get product_data ''id'') (\<lambda>pid.
     bind (dict_get product_data ''title'') (\<lambda>j1. bind (opt_str lib j1) (\<lambda>v1.
     bind (dict_get product_data ''handle'') (\<lambda>j2. bind (opt_str lib j2) (\<lambda>v2.
     bind (dict_get product_data ''vendor'') (\<lambda>j3. bind (opt_str lib j3) (\<lambda>v3.
     bind (dict_get product_data ''product_type'') (\<lambda>j4. bind (opt_str lib j4) (\<lambda>v4.
     bind (get_or_empty product_data ''tags'') (\<lambda>j5. bind (str_list lib j5) (\<lambda>v5.
     bind (dict_get product_data ''body_html'') (\<lambda>j6. bind (clean_body lib j6) (\<lambda>v6.
     bind (dict_get product_data ''created_at'') (\<lambda>j7. bind (opt_str lib j7) (\<lambda>v7.
     bind (dict_get product_data ''updated_at'') (\<lambda>j8. bind (opt_str lib j8) (\<lambda>v8.
       Inr \<lparr>p_id = Some (case pid of None \<Rightarrow> [] | Some j \<Rightarrow> py_str lib j),
            p_title = v1, p_handle = v2, p_vendor = v3, p_product_type = v4,
            p_price = fst (primary_pricing lib vs),
            p_compare_at_price = snd (primary_pricing lib vs),
            p_available = Some (any_available vs),
            p_tags = v5,
            p_images = concat imgs,
            p_variants = vs,
            p_description = Some v6,
            p_url = Some (build_absolute_url (join_url lib) base_url
                            (''/products/''
                             @ (case j2 of None \<Rightarrow> [] | Some j \<Rightarrow> py_str lib j))),
            p_created_at = v7, p_updated_at = v8\<rparr>
     )))))))))))))))))))))))"

fun products_loop :: "'f library \<Rightarrow> string \<Rightarrow> json list \<Rightarrow> 'f Product list \<Rightarrow> 'f Product list" where
  \<comment> \<open>\<open>for product_data in ...\<close>. The handler of the inner \<open>try\<close> calls \<open>product_data.get\<close>
      itself, so an entry that is not a \<open>dict\<close> raises out of it and ends the loop in the
      outer handler, with the products parsed so far\<close>
  "products_loop lib base_url [] products = products"
| "products_loop lib base_url (product_data # rest) products =
     (case parse_product lib base_url product_data of
        Inr product \<Rightarrow> products_loop lib base_url rest (products @ [product])
      | Inl e \<Rightarrow>
          (case product_data of
             JObj kvs \<Rightarrow> products_loop lib base_url rest products
           | _ \<Rightarrow> products))"

definition parse_products_json :: "'f library \<Rightarrow> string \<Rightarrow> json \<Rightarrow> 'f Product list" where
  \<comment> \<open>\<open>ShopifyParser.parse_products_json\<close>\<close>
  "parse_products_json lib base_url products_data =
     (case products_data of
        JObj kvs \<Rightarrow>
          (case map_of (rev kvs) ''products'' of
             None \<Rightarrow> []
           | Some v \<Rightarrow>
               (case iterate v of
                  Inl e \<Rightarrow> []
                | Inr items \<Rightarrow> products_loop lib base_url items []))
      | _ \<Rightarrow> [])"

text \<open>A feed of one product with two variants, the first available, the second not; and
  a library that accepts the JSON values of the matching Python types.\<close>

definition plain_library :: "rat library" where
  "plain_library =
     \<lparr>opt_int = (\<lambda>j. case j of None \<Rightarrow> Inr None | Some JNull \<Rightarrow> Inr None
                         | Some (JInt i) \<Rightarrow> Inr (Some i)
                         | _ \<Rightarrow> Inl (OtherException ''ValidationError'')),
      opt_str = (\<lambda>j. case j of None \<Rightarrow> Inr None | Some JNull \<Rightarrow> Inr None
                         | Some (JStr s) \<Rightarrow> Inr (Some s)
                         | _ \<Rightarrow> Inl (OtherException ''ValidationError'')),
      opt_bool = (\<lambda>j. case j of None \<Rightarrow> Inr None | Some JNull \<Rightarrow> Inr None
                          | Some (JBool b) \<Rightarrow> Inr (Some b)
                          | _ \<Rightarrow> Inl (OtherException ''ValidationError'')),
      str_list = (\<lambda>j. case j of JList [] \<Rightarrow> Inr []
                          | _ \<Rightarrow> Inl (OtherException ''ValidationError'')),
      to_float = (\<lambda>s. None),
      py_str = (\<lambda>j. case j of JStr s \<Rightarrow> s | JInt i \<Rightarrow> (if i = 1 then ''1'' else ''0'')
                        | _ \<Rightarrow> ''None''),
      clean_text = (\<lambda>s. s),
      join_url = (\<lambda>b r. b @ r)\<rparr>"

definition two_variant_feed :: json where
  "two_variant_feed =
     JObj [(''products'',
            JList [JObj [(''id'', JInt 1), (''title'', JStr ''Shirt''), (''handle'', JStr ''shirt''),
                         (''variants'',
                          JList [JObj [(''id'', JInt 11), (''available'', JBool True)],
                                 JObj [(''id'', JInt 12), (''available'', JBool False)]])]])]"

section \<open>Brand name (\<open>services/realtime_analyzer.py\<close>)\<close>

text \<open>
  The page as BeautifulSoup presents it to the brand-name code: the text of the first
  \<open>title\<close> element, and the \<open>content\<close> attributes of the \<open>og:site_name\<close> and
  \<open>application-name\<close> meta elements, each \<open>None\<close> where absent.
\<close>

record brand_soup =
  title_tag :: "string option"
  og_site_name :: "string option"
  application_name :: "string option"

definition last_segment :: "char \<Rightarrow> string \<Rightarrow> string" where
  \<comment> \<open>\<open>s.split(c)[-1]\<close>\<close>
  "last_segment c s = last (split_on c s)"

definition first_segment :: "char \<Rightarrow> string \<Rightarrow> string" where
  \<comment> \<open>\<open>s.split(c)[0]\<close>\<close>
  "first_segment c s = takeWhile (\<lambda>x. x \<noteq> c) s"

definition extract_brand_name_from_title :: "error + brand_soup \<Rightarrow> string" where
  \<comment> \<open>\<open>RealtimeStoreAnalyzer._extract_brand_name_from_title\<close>\<close>
  "extract_brand_name_from_title soup =
     (case soup of
        Inl e \<Rightarrow> ''Unknown Brand''
      | Inr sp \<Rightarrow>
          (case title_tag sp of
             None \<Rightarrow> ''Unknown Brand''
           | Some text \<Rightarrow>
               let title_text = strip text
               in if CHR ''|'' \<in> set title_text then strip (last_segment CHR ''|'' title_text)
                  else if CHR ''-'' \<in> set title_text
                  then strip (last_segment CHR ''-'' title_text)
                  else first_segment CHR '' '' title_text))"

definition is_alnum :: "char \<Rightarrow> bool" where
  \<comment> \<open>the character class \<open>[a-zA-Z0-9]\<close>\<close>
  "is_alnum c = (is_alpha c \<or> c \<in> set digits)"

definition capitalize :: "string \<Rightarrow> string" where
  \<comment> \<open>\<open>str.capitalize()\<close>\<close>
  "capitalize s = (case s of [] \<Rightarrow> [] | c # cs \<Rightarrow> upper_char c # lower cs)"

definition extract_brand_name_from_url :: "(string \<Rightarrow> error + string) \<Rightarrow> string \<Rightarrow> string" where
  \<comment> \<open>\<open>RealtimeStoreAnalyzer._extract_brand_name_from_url\<close>; \<open>netloc\<close> is
      \<open>urlparse(url).netloc\<close>\<close>
  "extract_brand_name_from_url netloc url =
     (case netloc url of
        Inl e \<Rightarrow> ''Unknown Brand''
      | Inr n \<Rightarrow>
          let domain = lower n;
              domain = (case find (\<lambda>p. startswith domain p)
                               [''www.'', ''shop.'', ''store.'', ''m.''] of
                          Some p \<Rightarrow> drop (length p) domain
                        | None \<Rightarrow> domain);
              domain_parts = split_on CHR ''.'' domain;
              brand_name = filter is_alnum (first_segment CHR ''.'' domain)
          in if length domain_parts \<ge> 2 \<and> brand_name \<noteq> []
             then (case brand_name of [] \<Rightarrow> [] | c # cs \<Rightarrow> upper_char c # cs)
             else capitalize (first_segment CHR ''.'' domain))"

definition suffix_words :: "string list" where
  "suffix_words = [''store'', ''shop'', ''official'', ''inc'', ''llc'', ''ltd'']"

definition remove_suffix_word :: "string \<Rightarrow> string" where
  \<comment> \<open>\<open>re.sub(r'\s+(store|shop|official|inc|llc|ltd)\.?$', '', s, flags=re.IGNORECASE)\<close>.
      \<open>$\<close> matches at the end and before a final newline; the match starts where the run
      of whitespace before the word starts\<close>
  "remove_suffix_word s =
     (let nl = (if s \<noteq> [] \<and> last s = CHR 0x0A then [CHR 0x0A] else []);
          body = (if nl = [] then s else butlast s);
          core = (if body \<noteq> [] \<and> last body = CHR ''.'' then butlast body else body)
      in case find (\<lambda>w. endswith (lower core) w) suffix_words of
           None \<Rightarrow> s
         | Some w \<Rightarrow>
             let pre = take (length core - length w) core
             in if pre \<noteq> [] \<and> is_space (last pre) then rstrip pre @ nl else s)"

definition remove_trailing_punct :: "string \<Rightarrow> string" where
  \<comment> \<open>\<open>re.sub(r'[:\-\|]+\s*$', '', s)\<close>\<close>
  "remove_trailing_punct s =
     (let t = rstrip s;
          run = takeWhile (\<lambda>c. c \<in> set '':-|'') (rev t)
      in if run = [] then s else take (length t - length run) t)"

definition brand_info_name :: "(string \<times> json) list \<Rightarrow> string" where
  \<comment> \<open>the first step: \<open>brand_info['name']\<close>, stripped, when it is a non-blank string without
      a generic word; the empty string stands for \<open>None\<close>\<close>
  "brand_info_name brand_info =
     (if brand_info = [] then []
      else case map_of brand_info ''name'' of
             Some (JStr n) \<Rightarrow>
               if length (strip n) > 0
                  \<and> \<not> any_in [''home'', ''welcome'', ''shop'', ''store''] (lower (strip n))
               then strip n else []
           | _ \<Rightarrow> [])"

definition meta_name :: "error + brand_soup \<Rightarrow> string" where
  \<comment> \<open>the third step, over the meta elements\<close>
  "meta_name soup =
     (case soup of
        Inl e \<Rightarrow> []
      | Inr sp \<Rightarrow>
          let brand_name = (case og_site_name sp of
                              Some c \<Rightarrow> if c \<noteq> [] then strip c else []
                            | None \<Rightarrow> [])
          in if brand_name = []
             then (case application_name sp of
                     Some c \<Rightarrow> if c \<noteq> [] then strip c else []
                   | None \<Rightarrow> [])
             else brand_name)"

definition get_comprehensive_brand_name ::
  "(string \<Rightarrow> error + string) \<Rightarrow> (string \<Rightarrow> error + brand_soup) \<Rightarrow> string \<Rightarrow> string \<Rightarrow>
   (string \<times> json) list \<Rightarrow> string" where
  \<comment> \<open>\<open>RealtimeStoreAnalyzer._get_comprehensive_brand_name\<close>; \<open>html_parser\<close> is
      \<open>BeautifulSoup(_, 'html.parser')\<close>\<close>
  "get_comprehensive_brand_name netloc html_parser url html_content brand_info =
     (let brand_name = brand_info_name brand_info;
          brand_name =
            (if brand_name = [] \<and> html_content \<noteq> []
             then (let title_name = extract_brand_name_from_title (html_parser html_content)
                   in if title_name \<noteq> [] \<and> title_name \<noteq> ''Unknown Brand'' then title_name
                      else brand_name)
             else brand_name);
          brand_name =
            (if brand_name = [] \<and> html_content \<noteq> [] then meta_name (html_parser html_content)
             else brand_name);
          brand_name =
            (if brand_name = [] then extract_brand_name_from_url netloc url else brand_name);
          cleaned = strip (remove_trailing_punct (remove_suffix_word brand_name))
      in if brand_name \<noteq> [] \<and> length cleaned > 0 then cleaned
         else extract_brand_name_from_url netloc url)"

text \<open>The page of the example, what \<open>html.parser\<close> makes of it, and what
  \<open>parse_brand_info_from_html\<close> returns for it.\<close>

definition acme_html :: string where
  "acme_html = ''<title>Foo | Acme Store</title>''"

definition acme_soup :: brand_soup where
  "acme_soup = \<lparr>title_tag = Some ''Foo | Acme Store'', og_site_name = None,
                 application_name = None\<rparr>"

definition acme_brand_info :: "(string \<times> json) list" where
  "acme_brand_info =
     [(''brand_name'', JStr ''Foo | Acme Store''), (''description'', JNull),
      (''favicon_url'', JNull), (''about'', JNull), (''story'', JNull)]"

section \<open>Competitors (\<open>utils/helpers.py\<close>, \<open>services/competitor_finder.py\<close>)\<close>

function str_replace :: "string \<Rightarrow> string \<Rightarrow> string \<Rightarrow> string" where
  \<comment> \<open>\<open>s.replace(old, new)\<close> for a non-empty \<open>old\<close>\<close>
  "str_replace old new s =
     (if s = [] \<or> old = [] then s
      else if startswith s old then new @ str_replace old new (drop (length old) s)
      else hd s # str_replace old new (tl s))"
  by pat_completeness auto
termination
  by (relation "measure (\<lambda>(old, new, s). length s)") auto

declare str_replace.simps [simp del]

fun join :: "string \<Rightarrow> string list \<Rightarrow> string" where
  \<comment> \<open>\<open>sep.join(words)\<close>\<close>
  "join sep [] = []"
| "join sep [w] = w"
| "join sep (w # ws) = w @ sep @ join sep ws"

definition py_slice_to :: "int \<Rightarrow> 'a list \<Rightarrow> 'a list" where
  \<comment> \<open>\<open>xs[:n]\<close> for an \<open>int\<close> of either sign\<close>
  "py_slice_to n xs = (if n \<ge> 0 then take (nat n) xs else take (length xs - nat (- n)) xs)"

text \<open>
  The surroundings of the finder: \<open>validators.url\<close>, \<open>urlparse(_).netloc\<close>, what the five
  network sources of \<open>_perform_web_search\<close> append to \<open>results\<close> for a query (each source
  catches its own exceptions), and \<open>random.choice\<close>.
\<close>

record search_result =
  r_url :: string
  r_title :: string
  r_description :: string

record finder_env =
  cf_validators :: "string \<Rightarrow> bool"
  cf_netloc :: "string \<Rightarrow> error + string"
  cf_sources :: "string \<Rightarrow> search_result list"
  cf_choice :: "string list \<Rightarrow> string"

record competitor =
  c_url :: string
  c_domain :: "string option"
  c_title :: string
  c_description :: string
  c_category :: string
  c_strength :: string
  c_market_position :: string
  c_source :: string

definition extract_domain :: "finder_env \<Rightarrow> string \<Rightarrow> string option" where
  \<comment> \<open>\<open>utils/helpers.py\<close>\<close>
  "extract_domain env url =
     (case normalize_url (cf_validators env) url of
        Inl e \<Rightarrow> None
      | Inr n \<Rightarrow> (case cf_netloc env n of Inl e \<Rightarrow> None | Inr d \<Rightarrow> Some d))"

definition domain_or_empty :: "finder_env \<Rightarrow> string \<Rightarrow> string" where
  \<comment> \<open>\<open>extract_domain(url) or ""\<close>\<close>
  "domain_or_empty env url = (case extract_domain env url of None \<Rightarrow> [] | Some d \<Rightarrow> d)"

definition mock_competitors :: "(string \<times> string list) list" where
  \<comment> \<open>\<open>self.mock_competitors\<close>, in the order of the \<open>dict\<close>\<close>
  "mock_competitors =
     [
      (''allbirds.com'',
       [''bombas.com'', ''rothy.com'', ''atoms.com'', ''vessi.com'', ''greats.com'']),
      (''colourpop.com'',
       [''milkmakeup.com'', ''glossier.com'', ''rarebeauty.com'', ''fentybeauty.com'', ''elfcosmetics.com'']),
      (''gymshark.com'',
       [''alphalete.com'', ''youngla.com'', ''nvgtn.com'', ''nike.com'', ''lululemon.com'']),
      (''beardbrand.com'',
       [''theartofshaving.com'', ''beardcare.com'', ''gentlemensbeardclub.com'', ''beardbaron.com'', ''mountaineerbranded.com'']),
      (''bombas.com'',
       [''allbirds.com'', ''rothy.com'', ''atoms.com'', ''smartwool.com'', ''stance.com'']),
      (''glossier.com'',
       [''milkmakeup.com'', ''colourpop.com'', ''rarebeauty.com'', ''fentybeauty.com'', ''kyliecosmetics.com'']),
      (''casper.com'',
       [(''purplemattre'' @ [CHR 0xAD] @ ''ss.com''), ''tuftandneedle.com'', ''saatva.com'', ''helix.com'', ''nectar.com'']),
      (''warbyparker.com'',
       [''zennioptical.com'', ''eyebuydirect.com'', ''bonlook.com'', ''liingo.com'', ''firmoo.com'']),
      (''dollarshaveclub.com'',
       [''harrys.com'', ''gillette.com'', ''flamingo.com'', ''billie.com'', ''cornerstone.com'']),
      (''theordinary.com'',
       [''paulaschoice.com'', ''cerave.com'', ''cetaphil.com'', ''neutrogena.com'', ''skinmedica.com'']),
      (''mejuri.com'',
       [''pandora.com'', (''kendra'' @ [CHR 0xAD] @ ''scott.com''), ''gorjana.com'', ''catbirdnyc.com'', ''aurate.com'']),
      (''away.com'',
       [''rimowa.com'', ''samsonite.com'', ''travelpro.com'', ''delsey.com'', ''monos.com'']),
      (''patagonia.com'',
       [''rei.com'', ''thenorthface.com'', ''columbia.com'', ''arcteryx.com'', ''prana.com'']),
      (''everlane.com'',
       [''cos.com'', ''uniqlo.com'', ''muji.com'', ''reformation.com'', ''grana.com'']),
      (''hairoriginals.com'',
       [''devacurl.com'', ''curlsmith.com'', ''sheamoisture.com'', ''moroccanoil.com'', ''ouai.com'']),
      (''fashion'',
       [''zara.com'', ''hm.com'', ''uniqlo.com'', ''cos.com'', ''arket.com'']),
      (''beauty'',
       [''sephora.com'', ''ulta.com'', ''sallybeauty.com'', ''dermstore.com'', ''beautylish.com'']),
      (''fitness'',
       [''nike.com'', ''adidas.com'', ''underarmour.com'', ''lululemon.com'', ''reebok.com'']),
      (''home'',
       [''ikea.com'', ''wayfair.com'', ''westelm.com'', ''cb2.com'', ''crateandbarrel.com'']),
      (''tech'',
       [''apple.com'', (''best'' @ [CHR 0xAD] @ ''buy.com''), ''newegg.com'', ''bhphoto.com'', ''adorama.com''])]"

definition CompetitorFinder_methods :: "string list" where
  \<comment> \<open>the methods the class \<open>CompetitorFinder\<close> defines; it has no base class and no
      \<open>__getattr__\<close>\<close>
  "CompetitorFinder_methods =
     [''__init__'',
      ''find_competitors'',
      ''_generate_competitor_title'',
      ''_generate_competitor_description'',
      ''_determine_category'',
      ''_search_web_competitors'',
      ''_perform_web_search'',
      ''_search_duckduckgo_engine'',
      ''_search_reddit_insights'',
      ''_search_github_resources'',
      ''_search_business_directories'',
      ''_search_analysis_platforms'',
      ''_get_enhanced_industry_competitors'',
      ''_extract_reddit_competitors'',
      ''_extract_github_competitors'',
      ''_extract_directory_competitors'',
      ''_extract_analysis_competitors'',
      ''_generate_industry_competitors'',
      ''_create_fallback_competitors'',
      ''_get_mock_competitors'',
      ''_generate_similar_competitors'',
      ''search_competitors_by_keywords'',
      ''get_competitor_insights'',
      ''extract_business_keywords'']"

definition GoogleSearchCompetitorFinder_methods :: "string list" where
  \<comment> \<open>the methods of the class that follows it in the file\<close>
  "GoogleSearchCompetitorFinder_methods =
     [''__init__'', ''find_competitors_via_google'', ''find_similar_businesses'',
      ''_create_ai_generated_competitors'', ''_create_emergency_competitor'',
      ''_create_emergency_competitors'']"

definition self_method :: "string \<Rightarrow> error + unit" where
  \<comment> \<open>the lookup \<open>self.name\<close> on a \<open>CompetitorFinder\<close>\<close>
  "self_method name =
     (if name \<in> set CompetitorFinder_methods then Inr ()
      else Inl (AttributeError name))"

definition generate_competitor_title :: "finder_env \<Rightarrow> string \<Rightarrow> string" where
  \<comment> \<open>\<open>CompetitorFinder._generate_competitor_title\<close>\<close>
  "generate_competitor_title env url =
     (case extract_domain env url of
        None \<Rightarrow> ''Competitor Website''
      | Some domain \<Rightarrow>
          if domain = [] then ''Competitor Website''
          else let name = str_replace ''www.'' ''''
                            (str_replace ''.net'' ''''
                               (str_replace ''.co'' '''' (str_replace ''.com'' '''' domain)));
                   formatted_name = join '' '' (map capitalize (split_on CHR ''-'' name))
               in join '' '' (map capitalize (split_on CHR ''.'' formatted_name)))"

definition industry_terms :: "(string list \<times> string \<times> string) list" where
  \<comment> \<open>the \<open>if\<close>/\<open>elif\<close> chain shared by \<open>_generate_competitor_description\<close> and
      \<open>_determine_category\<close>: terms, description, category\<close>
  "industry_terms =
     [([''beauty'', ''cosmetic'', ''makeup'', ''skincare''],
       ''Beauty and cosmetics retailer offering premium skincare and makeup products.'',
       ''Beauty & Personal Care''),
      ([''fashion'', ''clothing'', ''apparel'', ''wear''],
       ''Fashion retailer specializing in contemporary clothing and accessories.'',
       ''Fashion & Apparel''),
      ([''fitness'', ''gym'', ''sport'', ''athletic''],
       ''Athletic and fitness brand offering performance sportswear and equipment.'',
       ''Sports & Fitness''),
      ([''home'', ''furniture'', ''decor''],
       ''Home goods and furniture retailer with modern design focus.'',
       ''Home & Garden''),
      ([''tech'', ''electronic'', ''gadget''],
       ''Technology retailer offering innovative electronics and gadgets.'',
       ''Technology'')]"

definition generate_competitor_description :: "finder_env \<Rightarrow> string \<Rightarrow> string" where
  \<comment> \<open>\<open>CompetitorFinder._generate_competitor_description\<close>\<close>
  "generate_competitor_description env url =
     (case find (\<lambda>(terms, d, c). any_in terms (lower (domain_or_empty env url))) industry_terms of
        Some (terms, d, c) \<Rightarrow> d
      | None \<Rightarrow> ''Established competitor in the same market segment as your business.'')"

definition determine_category :: "finder_env \<Rightarrow> string \<Rightarrow> string" where
  \<comment> \<open>\<open>CompetitorFinder._determine_category\<close>\<close>
  "determine_category env url =
     (case find (\<lambda>(terms, d, c). any_in terms (lower (domain_or_empty env url))) industry_terms of
        Some (terms, d, c) \<Rightarrow> c
      | None \<Rightarrow> ''E-commerce'')"

definition industry_keywords :: "(string \<times> string list) list" where
  "industry_keywords =
     [(''beauty'', [''beauty'', ''makeup'', ''cosmetic'', ''skincare'', ''hair'']),
      (''fashion'', [''fashion'', ''clothing'', ''apparel'', ''wear'', ''style'']),
      (''fitness'', [''fitness'', ''gym'', ''workout'', ''athletic'', ''sport'']),
      (''home'', [''home'', ''furniture'', ''decor'', ''interior'', ''house'']),
      (''tech'', [''tech'', ''electronic'', ''gadget'', ''device'', ''digital''])]"

definition get_mock_competitors :: "string \<Rightarrow> int \<Rightarrow> string list" where
  \<comment> \<open>\<open>CompetitorFinder._get_mock_competitors\<close>\<close>
  "get_mock_competitors domain limit =
     (let clean_domain = lower (str_replace ''www.'' '''' domain)
      in case map_of mock_competitors clean_domain of
           Some comps \<Rightarrow> map (\<lambda>comp. ''https://'' @ comp) (py_slice_to limit comps)
         | None \<Rightarrow>
             (case find (\<lambda>(industry, keywords).
                           any_in keywords clean_domain
                           \<and> map_of mock_competitors industry \<noteq> None)
                        industry_keywords of
                Some (industry, keywords) \<Rightarrow>
                  (case map_of mock_competitors industry of
                     Some comps \<Rightarrow> map (\<lambda>comp. ''https://'' @ comp) (py_slice_to limit comps)
                   | None \<Rightarrow> [])
              | None \<Rightarrow>
                  (case find (\<lambda>(key, comps).
                                key \<notin> set [''fashion'', ''beauty'', ''fitness'', ''home'', ''tech'']
                                \<and> list_ex (\<lambda>part. length part > 3 \<and> contains clean_domain part)
                                     (split_on CHR ''.'' (str_replace ''.com'' '''' key)))
                             mock_competitors of
                     Some (key, comps) \<Rightarrow>
                       map (\<lambda>comp. ''https://'' @ comp) (py_slice_to limit comps)
                   | None \<Rightarrow> [])))"

definition database_competitor :: "finder_env \<Rightarrow> string \<Rightarrow> competitor" where
  \<comment> \<open>the record built in Method 1\<close>
  "database_competitor env comp_url =
     \<lparr>c_url = comp_url,
      c_domain = extract_domain env comp_url,
      c_title = generate_competitor_title env comp_url,
      c_description = generate_competitor_description env comp_url,
      c_category = determine_category env comp_url,
      c_strength = cf_choice env [''Strong'', ''Moderate'', ''Emerging''],
      c_market_position =
        cf_choice env [''Direct Competitor'', ''Indirect Competitor'', ''Industry Leader''],
      c_source = ''Database''\<rparr>"

definition enhanced_competitors :: "(string \<times> search_result list) list" where
  "enhanced_competitors =
     [
      (''beauty'',
        [\<lparr>r_url = ''https://glossier.com'', r_title = ''Glossier'',
           r_description = ''Minimalist beauty brand with cult following''\<rparr>,
         \<lparr>r_url = ''https://rarebeauty.com'', r_title = ''Rare Beauty'',
           r_description = ''Inclusive beauty by Selena Gomez''\<rparr>,
         \<lparr>r_url = ''https://fentybeauty.com'', r_title = ''Fenty Beauty'',
           r_description = (''Rihanna'' @ [CHR 0x27] @ ''s revolutionary inclusive beauty'')\<rparr>,
         \<lparr>r_url = ''https://milkmakeup.com'', r_title = ''Milk Makeup'',
           r_description = ''Clean, vegan beauty products''\<rparr>,
         \<lparr>r_url = ''https://haus-labs.com'', r_title = ''Haus Labs'',
           r_description = (''Lady Gaga'' @ [CHR 0x27] @ ''s clean beauty brand'')\<rparr>]),
      (''fitness'',
        [\<lparr>r_url = ''https://alphalete.com'', r_title = ''Alphalete Athletics'',
           r_description = ''Premium fitness apparel''\<rparr>,
         \<lparr>r_url = ''https://youngla.com'', r_title = ''YoungLA'',
           r_description = ''Trendy athletic wear''\<rparr>,
         \<lparr>r_url = ''https://nvgtn.com'', r_title = ''NVGTN'',
           r_description = ''High-performance fitness clothing''\<rparr>,
         \<lparr>r_url = ''https://1stphorm.com'', r_title = ''1st Phorm'',
           r_description = ''Fitness supplements and apparel''\<rparr>,
         \<lparr>r_url = ''https://shredz.com'', r_title = ''SHREDZ'',
           r_description = ''Fitness lifestyle brand''\<rparr>]),
      (''fashion'',
        [\<lparr>r_url = ''https://prettylittlething.com'', r_title = ''PrettyLittleThing'',
           r_description = ''Fast fashion for Gen Z''\<rparr>,
         \<lparr>r_url = ''https://boohoo.com'', r_title = ''Boohoo'',
           r_description = ''Affordable trendy fashion''\<rparr>,
         \<lparr>r_url = ''https://asos.com'', r_title = ''ASOS'',
           r_description = ''Global online fashion destination''\<rparr>,
         \<lparr>r_url = ''https://shein.com'', r_title = ''SHEIN'',
           r_description = ''Ultra-fast fashion from China''\<rparr>,
         \<lparr>r_url = ''https://zaful.com'', r_title = ''Zaful'',
           r_description = ''Trendy fashion at low prices''\<rparr>]),
      (''tech'',
        [\<lparr>r_url = ''https://best-buy.com'', r_title = ''Best Buy'',
           r_description = ''Electronics retail giant''\<rparr>,
         \<lparr>r_url = ''https://newegg.com'', r_title = ''Newegg'',
           r_description = ''Computer hardware specialist''\<rparr>,
         \<lparr>r_url = ''https://bhphotovideo.com'', r_title = ''B&H Photo'',
           r_description = ''Professional photo/video gear''\<rparr>,
         \<lparr>r_url = ''https://adorama.com'', r_title = ''Adorama'',
           r_description = ''Photography equipment retailer''\<rparr>,
         \<lparr>r_url = ''https://microcenter.com'', r_title = ''Micro Center'',
           r_description = ''Computer hardware superstore''\<rparr>]),
      (''home'',
        [\<lparr>r_url = ''https://wayfair.com'', r_title = ''Wayfair'',
           r_description = ''Online furniture superstore''\<rparr>,
         \<lparr>r_url = ''https://overstock.com'', r_title = ''Overstock'',
           r_description = ''Discounted home goods''\<rparr>,
         \<lparr>r_url = ''https://westelm.com'', r_title = ''West Elm'',
           r_description = ''Modern furniture and decor''\<rparr>,
         \<lparr>r_url = ''https://cb2.com'', r_title = ''CB2'',
           r_description = ''Contemporary furniture brand''\<rparr>,
         \<lparr>r_url = ''https://article.com'', r_title = ''Article'',
           r_description = ''Direct-to-consumer furniture''\<rparr>])]"

definition enhanced_keywords :: "string list" where
  "enhanced_keywords =
     [''cosmetic'', ''makeup'', ''skincare'', ''gym'', ''workout'', ''athletic'', ''sport'',
      ''clothing'', ''apparel'', ''fashion'', ''style'', ''electronics'', ''computer'', ''gadget'',
      ''tech'', ''furniture'', ''decor'', ''home'', ''interior'']"

definition get_enhanced_industry_competitors :: "string \<Rightarrow> search_result list" where
  \<comment> \<open>\<open>CompetitorFinder._get_enhanced_industry_competitors\<close>\<close>
  "get_enhanced_industry_competitors query =
     (let query_lower = lower query
      in case find (\<lambda>(cat, competitors).
                      contains query_lower cat \<or> any_in enhanced_keywords query_lower)
                   enhanced_competitors of
           Some (cat, competitors) \<Rightarrow> take 3 competitors
         | None \<Rightarrow>
             [\<lparr>r_url = ''https://shopify.com'', r_title = ''Shopify'',
               r_description = ''E-commerce platform leader''\<rparr>,
              \<lparr>r_url = ''https://amazon.com'', r_title = ''Amazon'',
               r_description = ''Global e-commerce giant''\<rparr>,
              \<lparr>r_url = ''https://alibaba.com'', r_title = ''Alibaba'',
               r_description = ''B2B marketplace leader''\<rparr>])"

definition perform_web_search :: "finder_env \<Rightarrow> string \<Rightarrow> search_result list" where
  \<comment> \<open>\<open>CompetitorFinder._perform_web_search\<close>\<close>
  "perform_web_search env query =
     (let results = cf_sources env query;
          results = (if results = [] then get_enhanced_industry_competitors query else results)
      in take 3 results)"

fun results_loop ::
  "finder_env \<Rightarrow> string \<Rightarrow> nat \<Rightarrow> search_result list \<Rightarrow> competitor list \<Rightarrow> competitor list" where
  \<comment> \<open>\<open>for result in search_results\<close>\<close>
  "results_loop env domain needed [] competitors = competitors"
| "results_loop env domain needed (result # rest) competitors =
     (if length competitors \<ge> needed then competitors
      else case extract_domain env (r_url result) of
             None \<Rightarrow> results_loop env domain needed rest competitors
           | Some result_domain \<Rightarrow>
               if result_domain \<noteq> []
                  \<and> str_replace ''www.'' '''' result_domain \<noteq> str_replace ''www.'' '''' domain
               then results_loop env domain needed rest
                      (competitors
                       @ [\<lparr>c_url = r_url result,
                           c_domain = Some result_domain,
                           c_title = r_title result,
                           c_description = r_description result,
                           c_category = determine_category env (r_url result),
                           c_strength = ''Moderate'',
                           c_market_position = ''Market Competitor'',
                           c_source = ''Web Search''\<rparr>])
               else results_loop env domain needed rest competitors)"

fun queries_loop ::
  "finder_env \<Rightarrow> string \<Rightarrow> nat \<Rightarrow> string list \<Rightarrow> competitor list \<Rightarrow> competitor list" where
  \<comment> \<open>\<open>for query in search_queries\<close>\<close>
  "queries_loop env domain needed [] competitors = competitors"
| "queries_loop env domain needed (query # rest) competitors =
     (if length competitors \<ge> needed then competitors
      else queries_loop env domain needed rest
             (results_loop env domain needed (perform_web_search env query) competitors))"

definition search_web_competitors :: "finder_env \<Rightarrow> string \<Rightarrow> nat \<Rightarrow> competitor list" where
  \<comment> \<open>\<open>CompetitorFinder._search_web_competitors\<close>\<close>
  "search_web_competitors env domain needed =
     queries_loop env domain needed
       [''alternatives to '' @ domain, ''competitors of '' @ domain,
        ''similar websites to '' @ domain, domain @ '' vs competitors'']
       []"

definition industry_leaders :: "(string \<times> string list) list" where
  "industry_leaders =
     [(''beauty'', [''sephora.com'', ''ulta.com'', ''beautylish.com'']),
      (''fashion'', [''zara.com'', ''hm.com'', ''uniqlo.com'']),
      (''fitness'', [''nike.com'', ''adidas.com'', ''lululemon.com'']),
      (''home'', [''ikea.com'', ''wayfair.com'', ''westelm.com'']),
      (''tech'', [''apple.com'', ''bestbuy.com'', ''newegg.com''])]"

definition generate_industry_competitors :: "finder_env \<Rightarrow> string \<Rightarrow> nat \<Rightarrow> competitor list" where
  \<comment> \<open>\<open>CompetitorFinder._generate_industry_competitors\<close>\<close>
  "generate_industry_competitors env domain needed =
     (let industry =
            (case find (\<lambda>(ind, keywords). any_in keywords (lower domain))
                       [(''beauty'', [''beauty'', ''cosmetic'', ''makeup'', ''skincare'']),
                        (''fashion'', [''fashion'', ''clothing'', ''apparel'', ''wear'']),
                        (''fitness'', [''fitness'', ''gym'', ''sport'', ''athletic'']),
                        (''home'', [''home'', ''furniture'', ''decor'']),
                        (''tech'', [''tech'', ''electronic'', ''gadget''])] of
               Some (ind, keywords) \<Rightarrow> ind
             | None \<Rightarrow> ''general'')
      in case map_of industry_leaders industry of
           None \<Rightarrow> []
         | Some leaders \<Rightarrow>
             map (\<lambda>leader.
                    \<lparr>c_url = ''https://'' @ leader,
                     c_domain = Some leader,
                     c_title = generate_competitor_title env (''https://'' @ leader),
                     c_description = generate_competitor_description env (''https://'' @ leader),
                     c_category = determine_category env (''https://'' @ leader),
                     c_strength = ''Strong'',
                     c_market_position = ''Industry Leader'',
                     c_source = ''Industry Analysis''\<rparr>)
                 (take needed leaders))"

text \<open>The three methods below are those of \<open>GoogleSearchCompetitorFinder\<close> that
  \<open>find_competitors\<close> names on \<open>self\<close>.\<close>

definition ai_templates :: "(string \<times> (string \<Rightarrow> string) \<times> (string \<Rightarrow> string)) list" where
  \<comment> \<open>suffix, title template and description template, as functions of the category\<close>
  "ai_templates =
     [(''hub.com'', (\<lambda>c. c @ '' Hub - Premium Solutions''),
       (\<lambda>c. ''Leading platform for '' @ c
             @ '' solutions with advanced features and premium service.'')),
      (''pro.com'', (\<lambda>c. c @ ''Pro - Professional Tools''),
       (\<lambda>c. ''Professional-grade '' @ c
             @ '' tools trusted by industry experts and enterprises.'')),
      (''express.com'', (\<lambda>c. c @ '' Express - Fast & Reliable''),
       (\<lambda>c. ''Fast, reliable '' @ c
             @ '' services with quick delivery and excellent support.'')),
      (''elite.com'', (\<lambda>c. ''Elite '' @ c @ '' Solutions''),
       (\<lambda>c. ''Elite-tier '' @ c
             @ '' solutions for discerning customers who demand the best.'')),
      (''direct.com'', (\<lambda>c. c @ ''Direct - Factory to You''),
       (\<lambda>c. ''Direct-to-consumer '' @ c
             @ '' products with factory pricing and premium quality.''))]"

definition create_ai_generated_competitors :: "finder_env \<Rightarrow> string \<Rightarrow> nat \<Rightarrow> competitor list" where
  \<comment> \<open>\<open>GoogleSearchCompetitorFinder._create_ai_generated_competitors\<close>\<close>
  "create_ai_generated_competitors env domain count =
     (let category = determine_category env domain
      in map (\<lambda>i. case ai_templates ! (i mod length ai_templates) of
                     (sfx, title_template, desc_template) \<Rightarrow>
                       let competitor_domain = str_replace '' '' '''' (lower category) @ sfx
                       in \<lparr>c_url = ''https://'' @ competitor_domain,
                           c_domain = Some competitor_domain,
                           c_title = title_template (py_title category),
                           c_description = desc_template (lower category),
                           c_category = category,
                           c_strength = cf_choice env [''Strong'', ''Moderate'', ''Emerging''],
                           c_market_position = ''AI Generated Competitor'',
                           c_source = ''AI Generated''\<rparr>)
             [0..<count])"

definition create_emergency_competitor :: "finder_env \<Rightarrow> string \<Rightarrow> nat \<Rightarrow> competitor" where
  \<comment> \<open>\<open>GoogleSearchCompetitorFinder._create_emergency_competitor\<close>\<close>
  "create_emergency_competitor env domain number =
     (let category = determine_category env domain;
          d = ''competitor'' @ string_of_nat number @ ''-'' @ str_replace ''.'' ''-'' domain
              @ ''.example.com''
      in \<lparr>c_url = ''https://'' @ d,
          c_domain = Some d,
          c_title = ''Alternative '' @ category @ '' Solution #'' @ string_of_nat number,
          c_description = ''Professional '' @ lower category
            @ '' alternative with competitive features and pricing. Emergency competitor generated to ensure minimum requirements.'',
          c_category = category,
          c_strength = ''Moderate'',
          c_market_position = ''Market Alternative'',
          c_source = ''Emergency Fallback''\<rparr>)"

definition create_emergency_competitors :: "finder_env \<Rightarrow> string \<Rightarrow> nat \<Rightarrow> competitor list" where
  \<comment> \<open>\<open>GoogleSearchCompetitorFinder._create_emergency_competitors\<close>\<close>
  "create_emergency_competitors env website_url count =
     (let domain = (case extract_domain env website_url of
                      None \<Rightarrow> ''unknown''
                    | Some d \<Rightarrow> if d = [] then ''unknown'' else d)
      in map (\<lambda>i. create_emergency_competitor env domain (i + 1)) [0..<count])"

function final_guarantee :: "finder_env \<Rightarrow> string \<Rightarrow> competitor list \<Rightarrow> error + competitor list" where
  \<comment> \<open>\<open>while len(competitors) < 2: ... self._create_emergency_competitor(...)\<close>\<close>
  "final_guarantee env domain competitors =
     (if length competitors < 2
      then (case self_method ''_create_emergency_competitor'' of
              Inl e \<Rightarrow> Inl e
            | Inr u \<Rightarrow>
                final_guarantee env domain
                  (competitors
                   @ [create_emergency_competitor env domain (length competitors + 1)]))
      else Inr competitors)"
  by pat_completeness auto
termination
  by (relation "measure (\<lambda>(env, domain, cs). 2 - length cs)") auto

declare final_guarantee.simps [simp del]

definition source_rank :: "competitor \<Rightarrow> nat" where
  \<comment> \<open>the sort key\<close>
  "source_rank c =
     (case map_of [(''Database'', 0), (''Web Search'', 1), (''Industry Analysis'', 2),
                   (''AI Generated'', 3), (''Emergency Fallback'', 4)] (c_source c) of
        Some k \<Rightarrow> k
      | None \<Rightarrow> 5)"

definition gather_competitors :: "finder_env \<Rightarrow> string \<Rightarrow> int \<Rightarrow> string \<times> competitor list" where
  \<comment> \<open>the start of the \<open>try\<close> block of \<open>find_competitors\<close>: \<open>domain\<close>, and \<open>competitors\<close>
      after Methods 1 to 3\<close>
  "gather_competitors env website_url limit =
     (let domain = (case extract_domain env website_url of
                      None \<Rightarrow> ''unknown''
                    | Some d \<Rightarrow> if d = [] then ''unknown'' else d);
          competitors = map (database_competitor env) (get_mock_competitors domain limit);
          competitors =
            (if length competitors < 2
             then competitors
                  @ search_web_competitors env domain (max (2 - length competitors) 3)
             else competitors);
          competitors =
            (if length competitors < 2
             then competitors
                  @ generate_industry_competitors env domain (max (2 - length competitors) 2)
             else competitors)
      in (domain, competitors))"

definition find_competitors_try :: "finder_env \<Rightarrow> string \<Rightarrow> int \<Rightarrow> error + competitor list" where
  \<comment> \<open>the \<open>try\<close> block of \<open>find_competitors\<close>\<close>
  "find_competitors_try env website_url limit =
     (case gather_competitors env website_url limit of
        (domain, competitors) \<Rightarrow>
          bind (if length competitors < 2
                then bind (self_method ''_create_ai_generated_competitors'')
                       (\<lambda>u. Inr (competitors
                                  @ create_ai_generated_competitors env domain
                                      (max (2 - length competitors) 2)))
                else Inr competitors)
            (\<lambda>competitors.
               bind (final_guarantee env domain competitors)
                 (\<lambda>competitors.
                    let competitors = sort_key source_rank competitors;
                        final_count = max 2 (min (int (length competitors)) limit)
                    in Inr (py_slice_to final_count competitors))))"

definition find_competitors :: "finder_env \<Rightarrow> string \<Rightarrow> int \<Rightarrow> error + competitor list" where
  \<comment> \<open>\<open>CompetitorFinder.find_competitors\<close>: \<open>Inl\<close> is an exception leaving the call. The
      handler of the \<open>try\<close> names \<open>self._create_emergency_competitors\<close>.\<close>
  "find_competitors env website_url limit =
     (case find_competitors_try env website_url limit of
        Inr final_competitors \<Rightarrow> Inr final_competitors
      | Inl e \<Rightarrow>
          bind (self_method ''_create_emergency_competitors'')
            (\<lambda>u. Inr (create_emergency_competitors env website_url 2)))"

text \<open>
  A store \<open>acme.io\<close> that is in no table, while the search engine answers each query with
  two links to the store itself and the four other sources fail.
\<close>

definition acme_env :: finder_env where
  "acme_env =
     \<lparr>cf_validators = (\<lambda>url. True),
      cf_netloc = (\<lambda>url. Inr (takeWhile (\<lambda>c. c \<noteq> CHR ''/'') (drop 8 url))),
      cf_sources = (\<lambda>query.
         [\<lparr>r_url = ''https://acme.io'', r_title = ''Acme'',
           r_description =
             ''Found via DuckDuckGo search: '' @ [CHR 0x22] @ query @ [CHR 0x22]\<rparr>,
          \<lparr>r_url = ''https://www.acme.io'', r_title = ''Acme - About'',
           r_description =
             ''Found via DuckDuckGo search: '' @ [CHR 0x22] @ query @ [CHR 0x22]\<rparr>]),
      cf_choice = (\<lambda>xs. hd xs)\<rparr>"

section \<open>Example pages and networks\<close>

text \<open>A contact page whose text names two addresses, and the search that finds them.\<close>

definition two_address_page :: contact_soup where
  "two_address_page =
     \<lparr>all_text = ''Orders: sales@x.com. Questions: info@x.com.'',
      text_phones = [], text_addresses = [],
      structured_emails = [], structured_phones = [], structured_addresses = []\<rparr>"

definition two_address_findall :: "string \<Rightarrow> string list" where
  "two_address_findall text =
     (if text = ''Orders: sales@x.com. Questions: info@x.com.''
      then [''sales@x.com'', ''info@x.com''] else [])"






section \<open>Properties\<close>

subsection \<open>Contact e-mail\<close>

lemma hd_sort_key_min:
  fixes f :: "'a \<Rightarrow> int"
  assumes "xs \<noteq> []"
  shows "hd (sort_key f xs) \<in> set xs \<and> (\<forall>y\<in>set xs. f (hd (sort_key f xs)) \<le> f y)"
proof -
  let ?ys = "sort_key f xs"
  have ne: "?ys \<noteq> []" using assms by (metis length_sort length_0_conv)
  then obtain z zs where ys: "?ys = z # zs" by (cases ?ys) auto
  have mem: "z \<in> set xs" using ys by (metis list.set_intros(1) set_sort)
  have srt: "sorted (map f ?ys)" by (rule sorted_sort_key)
  have "\<forall>y\<in>set xs. f z \<le> f y"
  proof
    fix y assume "y \<in> set xs"
    then have "y \<in> set (z # zs)" using ys by (metis set_sort)
    then show "f z \<le> f y" using srt ys by auto
  qed
  then show ?thesis using mem ys by simp
qed

lemma select_best_email_max:
  assumes "es \<noteq> []"
  shows "\<exists>e\<in>set es. select_best_email es = Some e \<and> (\<forall>d\<in>set es. email_score d \<le> email_score e)"
proof -
  let ?sc = "map (\<lambda>email. (email, email_score email)) es"
  have ne: "?sc \<noteq> []" using assms by simp
  from hd_sort_key_min[OF ne, of "\<lambda>x. - snd x"]
  have h: "hd (sort_reverse ?sc) \<in> set ?sc"
    and m: "\<forall>y\<in>set ?sc. - snd (hd (sort_reverse ?sc)) \<le> - snd y"
    by (simp_all add: sort_reverse_def)
  obtain e where e: "e \<in> set es" "hd (sort_reverse ?sc) = (e, email_score e)"
    using h by auto
  have "\<forall>d\<in>set es. email_score d \<le> email_score e"
  proof
    fix d assume "d \<in> set es"
    then have "(d, email_score d) \<in> set ?sc" by auto
    with m e(2) show "email_score d \<le> email_score e" by fastforce
  qed
  moreover have "select_best_email es = Some e"
    using assms e(2) by (simp add: select_best_email_def)
  ultimately show ?thesis using e(1) by blast
qed

lemma pattern_score_le: "pattern_score e \<le> 17"
proof (cases "first_match priority_patterns (strip (lower e)) 0")
  case None
  then show ?thesis by (simp add: pattern_score_def)
next
  case (Some j)
  then show ?thesis by (simp add: pattern_score_def priority_patterns_def)
qed

lemma pattern_score_info:
  "startswith (strip (lower e)) ''info@'' \<Longrightarrow> pattern_score e = 17"
  by (simp add: pattern_score_def priority_patterns_def)

lemma contact_emails_le_1:
  "length (emails (parse_contact_info_from_html order findall sp sa soup)) \<le> 1"
  by (cases soup)
     (simp_all add: parse_contact_info_from_html_def ContactInfo_default_def Let_def
        split: option.splits)

lemma contact_emails_link:
  "emails (parse_contact_info_from_html order findall sp sa (Inr page))
     = (case select_best_email
              (py_list_set order
                 (extract_emails_from_text order findall (all_text page)
                  @ structured_emails page)) of
          None \<Rightarrow> []
        | Some e \<Rightarrow> if e \<noteq> [] then [e] else [])"
  by (simp add: parse_contact_info_from_html_def Let_def)

lemma contact_emails_error:
  "emails (parse_contact_info_from_html order findall sp sa (Inl err)) = []"
  by (simp add: parse_contact_info_from_html_def ContactInfo_default_def)

lemma two_address_page_email:
  "emails (parse_contact_info_from_html (\<lambda>xs. xs) two_address_findall sp sa
             (Inr two_address_page)) = [''info@x.com'']"
  "emails (parse_contact_info_from_html rev two_address_findall sp sa
             (Inr two_address_page)) = [''info@x.com'']"
  unfolding contact_emails_link by code_simp+

lemma email_score_formula:
  "email_score e = pattern_score e + (if length e < 30 then 2 else 0)
                     - (if length e > 50 then 3 else 0)"
  by (simp add: email_score_def Let_def)

lemma email_score_le: "email_score e \<le> 19"
  using pattern_score_le[of e] by (simp add: email_score_formula)

lemma first_match_bound: "first_match ps s i = Some j \<Longrightarrow> i \<le> j"
  by (induction ps s i rule: first_match.induct) (auto split: if_splits)

lemma pattern_score_not_info:
  assumes "\<not> startswith (strip (lower e)) ''info@''"
  shows "pattern_score e \<le> 16"
proof (cases "first_match priority_patterns (strip (lower e)) 0")
  case None
  then show ?thesis by (simp add: pattern_score_def)
next
  case (Some j)
  have "first_match (tl priority_patterns) (strip (lower e)) 1 = Some j"
    using Some assms by (simp add: priority_patterns_def)
  from first_match_bound[OF this] have "1 \<le> j" .
  then show ?thesis using Some by (simp add: pattern_score_def priority_patterns_def)
qed

lemma email_score_info_short:
  "startswith (strip (lower e)) ''info@'' \<Longrightarrow> length e < 30 \<Longrightarrow> email_score e = 19"
  by (simp add: email_score_formula pattern_score_info)

lemma email_score_19_info:
  assumes "email_score e = 19"
  shows "startswith (strip (lower e)) ''info@''"
proof (rule ccontr)
  assume "\<not> startswith (strip (lower e)) ''info@''"
  from pattern_score_not_info[OF this] show False
    using assms by (simp add: email_score_formula split: if_splits)
qed

lemma short_info_selected:
  assumes "e \<in> set es" "startswith (strip (lower e)) ''info@''" "length e < 30"
  shows "\<exists>s\<in>set es. select_best_email es = Some s \<and> startswith (strip (lower s)) ''info@''
           \<and> email_score s = 19"
proof -
  have ne: "es \<noteq> []" using assms(1) by auto
  from select_best_email_max[OF ne] obtain s where s: "s \<in> set es" "select_best_email es = Some s"
    "\<forall>d\<in>set es. email_score d \<le> email_score s" by blast
  have "email_score e = 19" using assms(2,3) by (rule email_score_info_short)
  then have "19 \<le> email_score s" using s(3) assms(1) by fastforce
  then have "email_score s = 19" using email_score_le[of s] by simp
  then show ?thesis using s email_score_19_info by blast
qed

text \<open>
  C6. The contact information extracted from a page holds the address that
  \<open>_select_best_email\<close> returns for the page's candidates (those found in its text, without
  the known false positives, and those of its structured markup, duplicates removed), so
  at most one address, and none when the parser raises. The selected address is a
  candidate of maximal score. The score is the pattern priority, plus 2 for an address of
  fewer than 30 characters, minus 3 for one of more than 50. The pattern priority is at
  most 17, is 17 for the \<open>info@\<close> prefix, the first pattern of the list, and at most 16
  without it; so no score exceeds 19, an \<open>info@\<close> address of fewer than 30 characters has
  score 19, and where the candidates hold such an address the selected one is an \<open>info@\<close>
  address. For the candidates \<open>sales@x.com\<close> and \<open>info@x.com\<close>, in either order, the
  selected address is \<open>info@x.com\<close>, and a page naming these two yields exactly it.
\<close>

theorem contact_email_selection:
  "length (emails (parse_contact_info_from_html order findall sp sa soup)) \<le> 1
   \<and> (es \<noteq> [] \<longrightarrow>
        (\<exists>e\<in>set es. select_best_email es = Some e
            \<and> (\<forall>d\<in>set es. email_score d \<le> email_score e)))
   \<and> pattern_score e0 \<le> 17
   \<and> (startswith (strip (lower e0)) ''info@'' \<longrightarrow> pattern_score e0 = 17)
   \<and> select_best_email [''sales@x.com'', ''info@x.com''] = Some ''info@x.com''
   \<and> select_best_email [''info@x.com'', ''sales@x.com''] = Some ''info@x.com''
   \<and> emails (parse_contact_info_from_html order findall sp sa (Inr page))
       = (case select_best_email
                (py_list_set order
                   (extract_emails_from_text order findall (all_text page)
                    @ structured_emails page)) of
            None \<Rightarrow> []
          | Some e \<Rightarrow> if e \<noteq> [] then [e] else [])
   \<and> emails (parse_contact_info_from_html order findall sp sa (Inl err)) = []
   \<and> emails (parse_contact_info_from_html (\<lambda>xs. xs) two_address_findall sp sa
               (Inr two_address_page)) = [''info@x.com'']
   \<and> emails (parse_contact_info_from_html rev two_address_findall sp sa
               (Inr two_address_page)) = [''info@x.com'']
   \<and> email_score e0 = pattern_score e0 + (if length e0 < 30 then 2 else 0)
                          - (if length e0 > 50 then 3 else 0)
   \<and> email_score e0 \<le> 19
   \<and> (startswith (strip (lower e0)) ''info@'' \<and> length e0 < 30 \<longrightarrow> email_score e0 = 19)
   \<and> (\<not> startswith (strip (lower e0)) ''info@'' \<longrightarrow> pattern_score e0 \<le> 16)
   \<and> (e1 \<in> set es \<and> startswith (strip (lower e1)) ''info@'' \<and> length e1 < 30 \<longrightarrow>
        (\<exists>s\<in>set es. select_best_email es = Some s
            \<and> startswith (strip (lower s)) ''info@'' \<and> email_score s = 19))"
proof -
  have a: "select_best_email [''sales@x.com'', ''info@x.com''] = Some ''info@x.com''"
    by code_simp
  have b: "select_best_email [''info@x.com'', ''sales@x.com''] = Some ''info@x.com''"
    by code_simp
  have c: "es \<noteq> [] \<longrightarrow>
        (\<exists>e\<in>set es. select_best_email es = Some e
            \<and> (\<forall>d\<in>set es. email_score d \<le> email_score e))"
    using select_best_email_max by blast
  have d: "startswith (strip (lower e0)) ''info@'' \<longrightarrow> pattern_score e0 = 17"
    using pattern_score_info by blast
  have f: "startswith (strip (lower e0)) ''info@'' \<and> length e0 < 30 \<longrightarrow> email_score e0 = 19"
    using email_score_info_short by blast
  have g: "\<not> startswith (strip (lower e0)) ''info@'' \<longrightarrow> pattern_score e0 \<le> 16"
    using pattern_score_not_info by blast
  have h: "e1 \<in> set es \<and> startswith (strip (lower e1)) ''info@'' \<and> length e1 < 30 \<longrightarrow>
        (\<exists>s\<in>set es. select_best_email es = Some s
            \<and> startswith (strip (lower s)) ''info@'' \<and> email_score s = 19)"
    using short_info_selected by blast
  show ?thesis
    by (intro conjI contact_emails_le_1 c pattern_score_le d a b contact_emails_link
        contact_emails_error two_address_page_email email_score_formula email_score_le f g h)
qed

theorem contact_email_selection_witness:
  "[''sales@x.com'', ''info@x.com''] \<noteq> []
   \<and> ''info@x.com'' \<in> set [''sales@x.com'', ''info@x.com'']
   \<and> startswith (strip (lower ''info@x.com'')) ''info@''
   \<and> length ''info@x.com'' < 30
   \<and> pattern_score ''info@x.com'' = 17
   \<and> email_score ''info@x.com'' = 19
   \<and> \<not> startswith (strip (lower ''sales@x.com'')) ''info@''
   \<and> pattern_score ''sales@x.com'' \<le> 16
   \<and> (\<exists>e\<in>set [''sales@x.com'', ''info@x.com''].
         select_best_email [''sales@x.com'', ''info@x.com''] = Some e
         \<and> (\<forall>d\<in>set [''sales@x.com'', ''info@x.com'']. email_score d \<le> email_score e))
   \<and> (\<exists>s\<in>set [''sales@x.com'', ''info@x.com''].
         select_best_email [''sales@x.com'', ''info@x.com''] = Some s
         \<and> startswith (strip (lower s)) ''info@'' \<and> email_score s = 19)"
proof -
  have h1: "[''sales@x.com'', ''info@x.com''] \<noteq> []" by simp
  have h2: "''info@x.com'' \<in> set [''sales@x.com'', ''info@x.com'']" by simp
  have h3: "startswith (strip (lower ''info@x.com'')) ''info@''" by code_simp
  have h4: "length ''info@x.com'' < 30" by simp
  have h5: "\<not> startswith (strip (lower ''sales@x.com'')) ''info@''" by code_simp
  show ?thesis
    using h1 h2 h3 h4 h5
      contact_email_selection [of _ _ _ _ _ "[''sales@x.com'', ''info@x.com'']" "''info@x.com''"
        _ _ "''info@x.com''"]
      contact_email_selection [of _ _ _ _ _ "[''sales@x.com'', ''info@x.com'']" "''sales@x.com''"
        _ _ "''info@x.com''"]
    by blast
qed

subsection \<open>Retries of one fetch\<close>

lemma fetch_attempts_all_fail:
  "\<forall>a\<in>set as. attempt_result read (sg a) = None \<Longrightarrow>
   fetch_attempts read d r sg u as =
     (None, concat (map (\<lambda>a. Request u a # (if int a < r then [Sleep (d * (of_nat a + 1))] else [])) as))"
  by (induction as) auto

lemma fetch_attempts_first_success:
  "\<forall>a\<in>set pre. attempt_result read (sg a) = None \<Longrightarrow> attempt_result read (sg a) = Some c \<Longrightarrow>
   fetch_attempts read d r sg u (pre @ a # post) =
     (Some c, concat (map (\<lambda>a. Request u a # (if int a < r then [Sleep (d * (of_nat a + 1))] else [])) pre) @ [Request u a])"
  by (induction pre) auto

lemma concat_sleep_all:
  "\<forall>a\<in>set as. int a < r \<Longrightarrow>
   concat (map (\<lambda>a. Request u a # (if int a < r then [Sleep (d * (of_nat a + 1))] else [])) as)
   = concat (map (\<lambda>k. [Request u k, Sleep (d * of_nat (Suc k))]) as)"
  by (induction as) (auto simp: algebra_simps)

lemma requests_append: "requests (xs @ ys) = requests xs + requests ys"
  by (induction xs rule: requests.induct) auto

lemma sleeps_append: "sleeps (xs @ ys) = sleeps xs @ sleeps ys"
  by (induction xs rule: sleeps.induct) auto

lemma requests_retry_trace: "requests (retry_trace d u n) = Suc n"
  unfolding retry_trace_def by (induction n) (auto simp: requests_append)

lemma sleeps_retry_trace: "sleeps (retry_trace d u n) = map (\<lambda>k. d * of_nat k) [1..<Suc n]"
  unfolding retry_trace_def by (induction n) (auto simp: sleeps_append)

lemma fetch_all_fail_trace:
  assumes "0 \<le> r" "\<forall>a\<le>nat r. attempt_result read (sg a) = None"
  shows "fetch_attempts read d r sg u [0..<nat (r + 1)] = (None, retry_trace d u (nat r))"
proof -
  let ?F = "\<lambda>a. Request u a # (if int a < r then [Sleep (d * (of_nat a + 1))] else [])"
  have eq: "[0..<nat (r + 1)] = [0..<nat r] @ [nat r]"
    using assms(1) by (simp add: nat_add_distrib)
  have "\<forall>a\<in>set [0..<nat (r + 1)]. attempt_result read (sg a) = None"
    using assms by (auto simp: nat_add_distrib)
  from fetch_attempts_all_fail[OF this, of d r u]
  have "fetch_attempts read d r sg u [0..<nat (r + 1)] = (None, concat (map ?F [0..<nat (r + 1)]))" .
  moreover have "concat (map ?F [0..<nat (r + 1)]) = concat (map ?F [0..<nat r]) @ [Request u (nat r)]"
    unfolding eq using assms(1) by simp
  moreover have "concat (map ?F [0..<nat r])
      = concat (map (\<lambda>k. [Request u k, Sleep (d * of_nat (Suc k))]) [0..<nat r])"
    by (rule concat_sleep_all) auto
  ultimately show ?thesis unfolding retry_trace_def by (simp only:)
qed

lemma fetch_first_success_trace:
  assumes "0 \<le> r" "a \<le> nat r" "\<forall>b<a. attempt_result read (sg b) = None"
    "attempt_result read (sg a) = Some c"
  shows "fetch_attempts read d r sg u [0..<nat (r + 1)] = (Some c, retry_trace d u a)"
proof -
  let ?F = "\<lambda>a. Request u a # (if int a < r then [Sleep (d * (of_nat a + 1))] else [])"
  have lt: "a < nat (r + 1)" using assms(1,2) by auto
  have eq: "[0..<nat (r + 1)] = [0..<a] @ a # [Suc a..<nat (r + 1)]"
    using lt by (metis le0 upt_conv_Cons upt_add_eq_append le_add_diff_inverse less_imp_le_nat)
  have f: "\<forall>b\<in>set [0..<a]. attempt_result read (sg b) = None" using assms(3) by auto
  have "fetch_attempts read d r sg u ([0..<a] @ a # [Suc a..<nat (r + 1)])
          = (Some c, concat (map ?F [0..<a]) @ [Request u a])"
    by (rule fetch_attempts_first_success[OF f assms(4)])
  moreover have "concat (map ?F [0..<a])
      = concat (map (\<lambda>k. [Request u k, Sleep (d * of_nat (Suc k))]) [0..<a])"
    by (rule concat_sleep_all) (use assms(2) in auto)
  ultimately show ?thesis unfolding retry_trace_def using eq by (simp only:)
qed

lemma first_success_or_all_fail:
  "(\<forall>a\<le>(n::nat). f a = None) \<or> (\<exists>a\<le>n. (\<forall>b<a. f b = None) \<and> (\<exists>c. f a = Some c))"
proof (cases "\<forall>a\<le>n. f a = None")
  case True then show ?thesis by simp
next
  case False
  then obtain a0 where a0: "a0 \<le> n \<and> f a0 \<noteq> None" by auto
  define a where "a = (LEAST a. a \<le> n \<and> f a \<noteq> None)"
  have 1: "a \<le> n \<and> f a \<noteq> None"
    unfolding a_def by (rule LeastI[of "\<lambda>a. a \<le> n \<and> f a \<noteq> None" a0]) (rule a0)
  have 2: "\<forall>b<a. f b = None"
  proof (intro allI impI)
    fix b assume "b < a"
    then have "\<not> (b \<le> n \<and> f b \<noteq> None)" unfolding a_def by (rule not_less_Least)
    moreover have "b \<le> n" using \<open>b < a\<close> 1 by simp
    ultimately show "f b = None" by simp
  qed
  show ?thesis using 1 2 by auto
qed

lemma attempt_result_cases:
  "attempt_result read (Inl e) = None"
  "resp_status r \<noteq> 200 \<Longrightarrow> attempt_result read (Inr r) = None"
  by (simp_all add: attempt_result_def)

lemma fetch_with_trace:
  assumes "normalize_url v url = Inr nu" and "0 \<le> retries"
  shows "\<exists>n\<le>nat retries.
           fetch_with read st v net url (Some retries)
             = Inr (attempt_result read (net nu n), retry_trace (RATE_LIMIT_DELAY st) nu n)
           \<and> (\<forall>b<n. attempt_result read (net nu b) = None)
           \<and> (attempt_result read (net nu n) = None \<longrightarrow> n = nat retries)"
proof -
  let ?f = "\<lambda>a. attempt_result read (net nu a)"
  let ?d = "RATE_LIMIT_DELAY st"
  have unf: "fetch_with read st v net url (Some retries)
      = Inr (fetch_attempts read ?d retries (net nu) nu [0..<nat (retries + 1)])"
    using assms(1) by (simp add: fetch_with_def)
  from first_success_or_all_fail[of "nat retries" ?f]
  show ?thesis
  proof
    assume all: "\<forall>a\<le>nat retries. ?f a = None"
    then have "fetch_attempts read ?d retries (net nu) nu [0..<nat (retries + 1)]
        = (None, retry_trace ?d nu (nat retries))"
      using assms(2) by (intro fetch_all_fail_trace) auto
    then show ?thesis using unf all by auto
  next
    assume "\<exists>a\<le>nat retries. (\<forall>b<a. ?f b = None) \<and> (\<exists>c. ?f a = Some c)"
    then obtain a c where a: "a \<le> nat retries" "\<forall>b<a. ?f b = None" "?f a = Some c" by auto
    have "fetch_attempts read ?d retries (net nu) nu [0..<nat (retries + 1)]
        = (Some c, retry_trace ?d nu a)"
      by (rule fetch_first_success_trace[OF assms(2) a])
    then show ?thesis using unf a by auto
  qed
qed

text \<open>
  C8 (as amended). A fetch of a URL that \<open>normalize_url\<close> accepts, with \<open>retries\<close> retries
  (default \<open>MAX_RETRIES = 3\<close>), never raises. It makes \<open>n + 1 \<le> retries + 1\<close> attempts, one
  more than the claim's bound; after the \<open>k\<close>-th failed attempt it sleeps
  \<open>RATE_LIMIT_DELAY * k\<close> (base 1) before the next one, so the delays grow linearly; an
  exception of the request or a status other than 200 makes the attempt a failure that is
  retried; the result is the content of the first successful attempt, and \<open>None\<close> only once
  all \<open>retries + 1\<close> attempts have failed.
\<close>

theorem fetch_html_retry:
  assumes "normalize_url v url = Inr nu" and "0 \<le> retries"
  shows "(\<exists>n\<le>nat retries.
           fetch_html st v net url (Some retries)
             = Inr (attempt_result resp_text (net nu n), retry_trace (RATE_LIMIT_DELAY st) nu n)
           \<and> requests (retry_trace (RATE_LIMIT_DELAY st) nu n) = n + 1
           \<and> sleeps (retry_trace (RATE_LIMIT_DELAY st) nu n)
               = map (\<lambda>k. RATE_LIMIT_DELAY st * of_nat k) [1..<Suc n]
           \<and> (\<forall>b<n. attempt_result resp_text (net nu b) = None)
           \<and> (attempt_result resp_text (net nu n) = None \<longrightarrow> n = nat retries))
     \<and> fetch_html st v net url None = fetch_html st v net url (Some (MAX_RETRIES st))
     \<and> attempt_result resp_text (Inl e) = None
     \<and> (resp_status r \<noteq> 200 \<longrightarrow> attempt_result resp_text (Inr r) = None)
     \<and> MAX_RETRIES settings = 3 \<and> RATE_LIMIT_DELAY settings = 1"
proof -
  from fetch_with_trace[OF assms, of resp_text st net]
  have "\<exists>n\<le>nat retries.
           fetch_html st v net url (Some retries)
             = Inr (attempt_result resp_text (net nu n), retry_trace (RATE_LIMIT_DELAY st) nu n)
           \<and> requests (retry_trace (RATE_LIMIT_DELAY st) nu n) = n + 1
           \<and> sleeps (retry_trace (RATE_LIMIT_DELAY st) nu n)
               = map (\<lambda>k. RATE_LIMIT_DELAY st * of_nat k) [1..<Suc n]
           \<and> (\<forall>b<n. attempt_result resp_text (net nu b) = None)
           \<and> (attempt_result resp_text (net nu n) = None \<longrightarrow> n = nat retries)"
    unfolding fetch_html_def
    by (simp add: requests_retry_trace sleeps_retry_trace)
  moreover have "fetch_html st v net url None = fetch_html st v net url (Some (MAX_RETRIES st))"
    by (simp add: fetch_html_def fetch_with_def)
  moreover have "attempt_result resp_text (Inl e) = None"
    by (rule attempt_result_cases)
  moreover have "resp_status r \<noteq> 200 \<longrightarrow> attempt_result resp_text (Inr r) = None"
    by (simp add: attempt_result_cases)
  moreover have "MAX_RETRIES settings = 3 \<and> RATE_LIMIT_DELAY settings = 1"
    by (simp add: settings_def)
  ultimately show ?thesis by blast
qed

theorem fetch_html_retry_witness:
  "normalize_url (\<lambda>u. True) ''a.com/'' = Inr ''https://a.com'' \<and> (0::int) \<le> 3
   \<and> (\<exists>n\<le>nat 3.
         fetch_html settings (\<lambda>u. True) (\<lambda>u a. Inl (OtherException ''timeout'')) ''a.com/''
             (Some 3)
           = Inr (attempt_result resp_text (Inl (OtherException ''timeout'')),
                  retry_trace (RATE_LIMIT_DELAY settings) ''https://a.com'' n)
         \<and> requests (retry_trace (RATE_LIMIT_DELAY settings) ''https://a.com'' n) = n + 1)"
proof -
  have h1: "normalize_url (\<lambda>u. True) ''a.com/'' = Inr ''https://a.com''" by code_simp
  have h2: "(0::int) \<le> 3" by simp
  from fetch_html_retry[OF h1 h2, of settings "\<lambda>u a. Inl (OtherException ''timeout'')"]
  have "\<exists>n\<le>nat 3.
         fetch_html settings (\<lambda>u. True) (\<lambda>u a. Inl (OtherException ''timeout'')) ''a.com/''
             (Some 3)
           = Inr (attempt_result resp_text (Inl (OtherException ''timeout'')),
                  retry_trace (RATE_LIMIT_DELAY settings) ''https://a.com'' n)
         \<and> requests (retry_trace (RATE_LIMIT_DELAY settings) ''https://a.com'' n) = n + 1"
    by blast
  then show ?thesis using h1 h2 by blast
qed

text \<open>
  The claim's bound of \<open>N = 3\<close> attempts fails on the code: with the default settings and a
  network on which every request times out, one fetch makes 4 requests. And the call does
  raise for a URL that \<open>normalize_url\<close> rejects, before any attempt.
\<close>

theorem fetch_html_attempts_counterexample:
  "fetch_html settings (\<lambda>u. True) (\<lambda>u a. Inl (OtherException ''timeout'')) ''https://a.com'' None
     = Inr (None, [Request ''https://a.com'' 0, Sleep 1, Request ''https://a.com'' 1, Sleep 2,
                   Request ''https://a.com'' 2, Sleep 3, Request ''https://a.com'' 3])
   \<and> requests [Request ''https://a.com'' 0, Sleep 1, Request ''https://a.com'' 1, Sleep 2,
                Request ''https://a.com'' 2, Sleep 3, Request ''https://a.com'' 3] = 4
   \<and> \<not> (4 \<le> MAX_RETRIES settings)
   \<and> fetch_html settings (\<lambda>u. True) (\<lambda>u a. Inl (OtherException ''timeout'')) '''' None
     = Inl (ValueError ''URL must be a non-empty string'')"
  by code_simp

subsection \<open>The batch fetch\<close>













subsection \<open>Hero products\<close>

lemma pad_emergency_length: "2 \<le> length (pad_emergency base_url unique_heroes)"
proof (induction base_url unique_heroes rule: pad_emergency.induct)
  case (1 base_url unique_heroes)
  show ?case
  proof (cases "length unique_heroes < 2")
    case True
    with 1 show ?thesis by (subst pad_emergency.simps) simp
  next
    case False
    then show ?thesis by (subst pad_emergency.simps) simp
  qed
qed

lemma create_emergency_length: "length (create_emergency_hero_products base_url n) = n"
  by (simp add: create_emergency_hero_products_def)

lemma hero_try_length:
  "hero_try urljoin base_url extract soup = Inr unique_heroes \<Longrightarrow> 2 \<le> length unique_heroes"
  by (auto simp: hero_try_def Let_def pad_emergency_length split: sum.splits if_splits)

lemma parse_hero_bounds:
  "2 \<le> length (parse_hero_products_from_html urljoin base_url extract soup)
   \<and> length (parse_hero_products_from_html urljoin base_url extract soup) \<le> 10"
proof (cases "hero_try urljoin base_url extract soup")
  case (Inl e)
  then show ?thesis
    by (simp add: parse_hero_products_from_html_def create_emergency_length)
next
  case (Inr u)
  from hero_try_length[OF this] show ?thesis using Inr
    by (simp add: parse_hero_products_from_html_def)
qed












text \<open>
  C10. Hero-product extraction returns between 2 and 10 entries. The bound is reached by
  truncation: a page on which one selector matches twelve acceptable elements with
  unrelated titles yields exactly 10 entries.
\<close>

theorem hero_products_at_most_10:
  "length (parse_hero_products_from_html urljoin base_url extract soup) \<le> 10
   \<and> 2 \<le> length (parse_hero_products_from_html urljoin base_url extract soup)
   \<and> length (extract_all titled ''abcdefghijkl'') = 12
   \<and> length (parse_hero_products_from_html (\<lambda>b r. b @ r) ''https://a.com'' titled
               (Inr twelve_soup)) = 10"
proof -
  have "length (extract_all titled ''abcdefghijkl'') = 12" by code_simp
  moreover have "length (parse_hero_products_from_html (\<lambda>b r. b @ r) ''https://a.com'' titled
               (Inr twelve_soup)) = 10" by code_simp
  ultimately show ?thesis using parse_hero_bounds by blast
qed

subsection \<open>Policies\<close>

lemma filter_concat_le:
  assumes "\<And>x. length (filter P (f x)) \<le> (if Q x then 1 else 0)"
  shows "length (filter P (concat (map f xs))) \<le> length (filter Q xs)"
proof (induction xs)
  case Nil
  then show ?case by simp
next
  case (Cons x xs)
  have "length (filter P (f x)) \<le> (if Q x then 1 else 0)" by (rule assms)
  with Cons show ?case by (auto split: if_splits)
qed

lemma policy_of_page_type:
  "length (filter (\<lambda>p. policy_type p = t) (policy_of_page sc item))
     \<le> (if maps_to t item then 1 else 0)"
  by (cases item) (simp add: policy_of_page_def maps_to_def split: option.splits)

lemma count_of_type_le:
  "count_of_type t (parse_comprehensive_policies main_url sc)
     \<le> length (filter (maps_to t) (policy_urls main_url))"
  unfolding count_of_type_def parse_comprehensive_policies_def
  by (rule filter_concat_le) (rule policy_of_page_type)

lemma count_of_type_le_2: "count_of_type t (parse_comprehensive_policies main_url sc) \<le> 2"
proof -
  have "length (filter (maps_to t) (policy_urls main_url)) \<le> 2"
    by (cases t) (simp_all add: policy_urls_def Let_def maps_to_def policy_mappings_def)
  with count_of_type_le[of t main_url sc] show ?thesis by linarith
qed

lemma count_refund: "count_of_type REFUND (parse_comprehensive_policies main_url sc) = 0"
proof -
  have "length (filter (maps_to REFUND) (policy_urls main_url)) = 0"
    by (simp add: policy_urls_def Let_def maps_to_def policy_mappings_def)
  with count_of_type_le[of REFUND main_url sc] show ?thesis by linarith
qed

lemma policy_of_page_len: "length (policy_of_page sc item) = (if qualifies sc item then 1 else 0)"
  by (cases item) (simp add: policy_of_page_def qualifies_def split: option.splits)

lemma length_concat_filter:
  assumes "\<And>x. length (f x) = (if Q x then 1 else 0)"
  shows "length (concat (map f xs)) = length (filter Q xs)"
  by (induction xs) (simp_all add: assms)

lemma policies_one_per_page:
  "length (parse_comprehensive_policies main_url sc)
     = length (filter (qualifies sc) (policy_urls main_url))"
  unfolding parse_comprehensive_policies_def
  by (rule length_concat_filter) (rule policy_of_page_len)

lemma policies_le_8: "length (parse_comprehensive_policies main_url sc) \<le> 8"
proof -
  have "length (filter (qualifies sc) (policy_urls main_url)) \<le> length (policy_urls main_url)"
    by (rule length_filter_le)
  also have "\<dots> = 8" by (simp add: policy_urls_def Let_def)
  finally show ?thesis by (simp add: policies_one_per_page)
qed

text \<open>
  C1 (as amended). The aggregated policies hold one entry for each listed policy path that
  was fetched with a body of more than 100 characters, so at most 8 entries, and at most two
  of any one type (none of type \<open>refund\<close>): the list is not reduced to one entry per type.
\<close>

theorem policies_per_type:
  "length (parse_comprehensive_policies main_url sc)
     = length (filter (qualifies sc) (policy_urls main_url))
   \<and> length (parse_comprehensive_policies main_url sc) \<le> 8
   \<and> count_of_type t (parse_comprehensive_policies main_url sc) \<le> 2
   \<and> count_of_type t (parse_comprehensive_policies main_url sc)
       \<le> length (filter (maps_to t) (policy_urls main_url))
   \<and> count_of_type REFUND (parse_comprehensive_policies main_url sc) = 0"
  using policies_one_per_page policies_le_8 count_of_type_le_2 count_of_type_le count_refund
  by blast

text \<open>
  The claim of at most one entry per type fails when \<open>/pages/privacy-policy\<close> and
  \<open>/pages/privacy\<close> are both fetched with 101 characters: two entries of type \<open>privacy\<close>.
\<close>

theorem policies_per_type_counterexample:
  "count_of_type PRIVACY (parse_comprehensive_policies ''https://a.com'' two_privacy_pages) = 2
   \<and> \<not> count_of_type PRIVACY
           (parse_comprehensive_policies ''https://a.com'' two_privacy_pages) \<le> 1"
  by code_simp

subsection \<open>FAQs\<close>

lemma parse_faqs_le_20: "length (parse_faqs_from_html soup) \<le> 20"
  by (simp add: parse_faqs_from_html_def)

lemma page_faqs_le_20: "length (page_faqs hp sc u) \<le> 20"
  by (simp add: page_faqs_def parse_faqs_le_20 split: option.splits)

lemma comprehensive_faqs_le_60: "length (parse_comprehensive_faqs hp main_url sc) \<le> 60"
proof -
  have "length (concat (map (page_faqs hp sc) (faq_urls main_url))) \<le> 60"
    using page_faqs_le_20[of hp sc "rstrip_chars ''/'' main_url @ ''/pages/faq''"]
      page_faqs_le_20[of hp sc "rstrip_chars ''/'' main_url @ ''/pages/help''"]
      page_faqs_le_20[of hp sc "rstrip_chars ''/'' main_url @ ''/pages/support''"]
    by (simp add: faq_urls_def Let_def)
  then show ?thesis
    by (simp add: parse_comprehensive_faqs_def Let_def default_faqs_def)
qed

text \<open>
  C4 (as amended). FAQ extraction from one page returns at most 20 entries. The aggregated
  FAQs are the concatenation of the results for the three FAQ pages, so at most 60 entries,
  not 20; when the three pages yield nothing, they are the three default pairs.
\<close>

theorem faqs_bounds:
  "length (parse_faqs_from_html soup) \<le> 20
   \<and> length (parse_comprehensive_faqs hp main_url sc) \<le> 60
   \<and> (concat (map (page_faqs hp sc) (faq_urls main_url)) = []
        \<longrightarrow> parse_comprehensive_faqs hp main_url sc = default_faqs)
   \<and> (concat (map (page_faqs hp sc) (faq_urls main_url)) \<noteq> []
        \<longrightarrow> parse_comprehensive_faqs hp main_url sc
              = concat (map (page_faqs hp sc) (faq_urls main_url)))
   \<and> length default_faqs = 3"
  using parse_faqs_le_20 comprehensive_faqs_le_60
  by (simp add: parse_comprehensive_faqs_def default_faqs_def)

theorem faqs_bounds_witness:
  "concat (map (page_faqs (\<lambda>h. Inr dl_soup) Map.empty) (faq_urls ''https://a.com'')) = []
   \<and> parse_comprehensive_faqs (\<lambda>h. Inr dl_soup) ''https://a.com'' Map.empty = default_faqs
   \<and> concat (map (page_faqs (\<lambda>h. Inr dl_soup) three_faq_pages) (faq_urls ''https://a.com''))
       \<noteq> []
   \<and> length (parse_comprehensive_faqs (\<lambda>h. Inr dl_soup) ''https://a.com'' three_faq_pages)
       \<le> 60"
proof -
  have h1: "concat (map (page_faqs (\<lambda>h. Inr dl_soup) Map.empty) (faq_urls ''https://a.com''))
      = []"
    by code_simp
  have h2: "concat (map (page_faqs (\<lambda>h. Inr dl_soup) three_faq_pages)
      (faq_urls ''https://a.com'')) \<noteq> []"
    by code_simp
  show ?thesis
    using h1 h2 faqs_bounds[of _ "\<lambda>h. Inr dl_soup" "''https://a.com''" Map.empty]
      faqs_bounds[of _ "\<lambda>h. Inr dl_soup" "''https://a.com''" three_faq_pages]
    by blast
qed

text \<open>
  The bound of 20 on the aggregated FAQs fails with three FAQ pages of seven questions
  each: 21 entries.
\<close>

theorem faqs_total_counterexample:
  "length (parse_comprehensive_faqs (\<lambda>h. Inr dl_soup) ''https://a.com'' three_faq_pages) = 21
   \<and> \<not> length (parse_comprehensive_faqs (\<lambda>h. Inr dl_soup) ''https://a.com'' three_faq_pages)
         \<le> 20"
  by code_simp

subsection \<open>Product availability\<close>

lemma bind_InrE:
  assumes "bind m f = Inr y"
  obtains x where "m = Inr x" "f x = Inr y"
  using assms by (cases m) (auto simp: bind_def)

lemma parse_product_available:
  assumes "parse_product lib base_url product_data = Inr p"
  shows "p_available p = Some (any_available (p_variants p))"
  using assms unfolding parse_product_def
  by (elim bind_InrE) auto

lemma products_loop_available:
  assumes "\<forall>p\<in>set products. p_available p = Some (any_available (p_variants p))"
    and "q \<in> set (products_loop lib base_url items products)"
  shows "p_available q = Some (any_available (p_variants q))"
  using assms
proof (induction items arbitrary: products)
  case Nil
  then show ?case by simp
next
  case (Cons product_data rest)
  show ?case
  proof (cases "parse_product lib base_url product_data")
    case (Inr product)
    have "\<forall>p\<in>set (products @ [product]). p_available p = Some (any_available (p_variants p))"
      using Cons.prems(1) parse_product_available[OF Inr] by auto
    moreover have "q \<in> set (products_loop lib base_url rest (products @ [product]))"
      using Cons.prems(2) Inr by simp
    ultimately show ?thesis by (rule Cons.IH)
  next
    case (Inl e)
    show ?thesis
    proof (cases "\<exists>kvs. product_data = JObj kvs")
      case True
      then have "q \<in> set (products_loop lib base_url rest products)"
        using Cons.prems(2) Inl by auto
      with Cons.prems(1) show ?thesis by (rule Cons.IH)
    next
      case False
      then have "q \<in> set products"
        using Cons.prems(2) Inl by (cases product_data) auto
      with Cons.prems(1) show ?thesis by blast
    qed
  qed
qed

lemma parse_products_available:
  assumes "q \<in> set (parse_products_json lib base_url products_data)"
  shows "p_available q = Some (any_available (p_variants q))"
proof -
  from assms obtain items where "q \<in> set (products_loop lib base_url items [])"
    by (auto simp: parse_products_json_def split: json.splits option.splits sum.splits)
  then show ?thesis by (intro products_loop_available[of "[]"]) auto
qed

text \<open>
  C5. Every product that \<open>parse_products_json\<close> returns has \<open>available\<close> set: to \<open>True\<close>
  when it has no variants, and otherwise to whether one of its variants has
  \<open>available = True\<close>. The feed of one product with an available and an unavailable
  variant yields one product, which is available.
\<close>

theorem product_available:
  assumes "p \<in> set (parse_products_json lib base_url products_data)"
  shows "p_available p
           = Some (if p_variants p = [] then True
                   else (\<exists>v\<in>set (p_variants p). v_available v = Some True))
         \<and> map p_available (parse_products_json plain_library ''https://a.com'' two_variant_feed)
             = [Some True]
         \<and> map (\<lambda>p. map v_available (p_variants p))
               (parse_products_json plain_library ''https://a.com'' two_variant_feed)
             = [[Some True, Some False]]"
proof -
  have "map p_available (parse_products_json plain_library ''https://a.com'' two_variant_feed)
      = [Some True]"
    by code_simp
  moreover have "map (\<lambda>p. map v_available (p_variants p))
               (parse_products_json plain_library ''https://a.com'' two_variant_feed)
             = [[Some True, Some False]]"
    by code_simp
  moreover have "p_available p
           = Some (if p_variants p = [] then True
                   else (\<exists>v\<in>set (p_variants p). v_available v = Some True))"
    using parse_products_available[OF assms] by (simp add: any_available_def list_ex_iff)
  ultimately show ?thesis by blast
qed

theorem product_available_witness:
  "hd (parse_products_json plain_library ''https://a.com'' two_variant_feed)
     \<in> set (parse_products_json plain_library ''https://a.com'' two_variant_feed)
   \<and> p_variants (hd (parse_products_json plain_library ''https://a.com'' two_variant_feed))
       \<noteq> []
   \<and> p_available (hd (parse_products_json plain_library ''https://a.com'' two_variant_feed))
       = Some (\<exists>v\<in>set (p_variants
                 (hd (parse_products_json plain_library ''https://a.com'' two_variant_feed))).
                 v_available v = Some True)"
proof -
  have h: "hd (parse_products_json plain_library ''https://a.com'' two_variant_feed)
     \<in> set (parse_products_json plain_library ''https://a.com'' two_variant_feed)"
    by code_simp
  have n: "p_variants (hd (parse_products_json plain_library ''https://a.com'' two_variant_feed))
       \<noteq> []"
    by code_simp
  show ?thesis using h n product_available[OF h] by simp
qed

subsection \<open>Brand name\<close>

lemma acme_title_steps:
  "strip ''Foo | Acme Store'' = ''Foo | Acme Store''"
  "strip (last_segment CHR ''|'' ''Foo | Acme Store'') = ''Acme Store''"
  "remove_suffix_word ''Acme Store'' = ''Acme''"
  "strip (remove_trailing_punct ''Acme'') = ''Acme''"
  by code_simp+

lemma acme_title:
  assumes "title_tag sp = Some ''Foo | Acme Store''"
  shows "extract_brand_name_from_title (Inr sp) = ''Acme Store''"
  using assms by (simp add: extract_brand_name_from_title_def acme_title_steps)

text \<open>
  C9. For the page \<open><title>Foo | Acme Store</title>\<close>, whose title element html.parser
  reads as \<open>Foo | Acme Store\<close>, and brand information giving no usable \<open>name\<close>, the
  resolved brand name is \<open>Acme\<close>, whatever the URL and the meta elements: the title step
  takes the segment after the last \<open>|\<close>, \<open>Acme Store\<close>, and the final clean-up removes the
  trailing \<open>Store\<close>.
\<close>

theorem brand_name_acme:
  assumes "html_parser acme_html = Inr sp" and "title_tag sp = Some ''Foo | Acme Store''"
    and "brand_info_name brand_info = []"
  shows "get_comprehensive_brand_name netloc html_parser url acme_html brand_info = ''Acme''
         \<and> extract_brand_name_from_title (html_parser acme_html) = ''Acme Store''
         \<and> remove_suffix_word ''Acme Store'' = ''Acme''"
proof -
  have t: "extract_brand_name_from_title (html_parser acme_html) = ''Acme Store''"
    using assms(1) acme_title[OF assms(2)] by simp
  have "get_comprehensive_brand_name netloc html_parser url acme_html brand_info = ''Acme''"
    unfolding get_comprehensive_brand_name_def using assms(3) t
    by (simp add: acme_title_steps acme_html_def)
  then show ?thesis using t acme_title_steps(3) by simp
qed

theorem brand_name_acme_witness:
  "(\<lambda>h. Inr acme_soup) acme_html = (Inr acme_soup :: error + brand_soup)
   \<and> title_tag acme_soup = Some ''Foo | Acme Store''
   \<and> brand_info_name acme_brand_info = []
   \<and> get_comprehensive_brand_name (\<lambda>u. Inr ''www.example.com'') (\<lambda>h. Inr acme_soup)
        ''https://www.example.com'' acme_html acme_brand_info = ''Acme''"
proof -
  have h1: "(\<lambda>h. Inr acme_soup) acme_html = (Inr acme_soup :: error + brand_soup)" by simp
  have h2: "title_tag acme_soup = Some ''Foo | Acme Store''" by (simp add: acme_soup_def)
  have h3: "brand_info_name acme_brand_info = []" by code_simp
  show ?thesis using h1 h2 h3 brand_name_acme[OF h1 h2 h3] by blast
qed

subsection \<open>Competitors\<close>

lemma missing_methods:
  "self_method ''_create_ai_generated_competitors''
     = Inl (AttributeError ''_create_ai_generated_competitors'')"
  "self_method ''_create_emergency_competitor''
     = Inl (AttributeError ''_create_emergency_competitor'')"
  "self_method ''_create_emergency_competitors''
     = Inl (AttributeError ''_create_emergency_competitors'')"
  by code_simp+

lemma final_guarantee_enough:
  "2 \<le> length competitors \<Longrightarrow> final_guarantee env domain competitors = Inr competitors"
  by (subst final_guarantee.simps) simp

lemma find_competitors_outcome:
  "find_competitors env website_url limit =
     (let competitors = snd (gather_competitors env website_url limit)
      in if length competitors < 2
         then Inl (AttributeError ''_create_emergency_competitors'')
         else Inr (py_slice_to (max 2 (min (int (length competitors)) limit))
                     (sort_key source_rank competitors)))"
proof (cases "gather_competitors env website_url limit")
  case (Pair domain competitors)
  show ?thesis
  proof (cases "length competitors < 2")
    case True
    then show ?thesis using Pair
      by (simp add: find_competitors_def find_competitors_try_def bind_def missing_methods)
  next
    case False
    then have "2 \<le> length competitors" by simp
    from final_guarantee_enough[OF this] show ?thesis using Pair False
      by (simp add: find_competitors_def find_competitors_try_def bind_def Let_def)
  qed
qed

lemma find_competitors_at_least_2:
  assumes "find_competitors env website_url limit = Inr final_competitors"
  shows "2 \<le> length final_competitors"
proof -
  let ?cs = "snd (gather_competitors env website_url limit)"
  have ge: "\<not> length ?cs < 2" and
    fc: "final_competitors = py_slice_to (max 2 (min (int (length ?cs)) limit))
                     (sort_key source_rank ?cs)"
    using assms unfolding find_competitors_outcome by (auto simp: Let_def split: if_splits)
  show ?thesis unfolding fc py_slice_to_def using ge by (auto simp: min_def max_def)
qed

text \<open>
  C3. The guarantee of at least 2 competitors does not hold on the code: the three methods
  that fabricate records are defined in the class \<open>GoogleSearchCompetitorFinder\<close>, not in
  \<open>CompetitorFinder\<close>, so naming them on \<open>self\<close> raises \<open>AttributeError\<close>. For the store
  \<open>acme.io\<close>, with no entry in the tables and a web search that only finds the store itself,
  Methods 1 to 3 find nothing, Method 4 raises, and the handler raises in turn: the call
  ends in an exception instead of returning two fabricated records.
\<close>

theorem find_competitors_missing_methods:
  "gather_competitors acme_env ''acme.io'' 5 = (''acme.io'', [])
   \<and> find_competitors acme_env ''acme.io'' 5
       = Inl (AttributeError ''_create_emergency_competitors'')
   \<and> ''_create_emergency_competitors'' \<notin> set CompetitorFinder_methods
   \<and> ''_create_emergency_competitors'' \<in> set GoogleSearchCompetitorFinder_methods
   \<and> ''_create_ai_generated_competitors'' \<notin> set CompetitorFinder_methods
   \<and> ''_create_ai_generated_competitors'' \<in> set GoogleSearchCompetitorFinder_methods"
  by code_simp

end
